theory Spec2Isabelle
  imports Complex_Main
begin

section \<open>Data model of the payment ledger\<close>

text \<open>
  The ledger module keeps three MongoDB collections (accounts, ledger entries, events)
  and one in-memory configuration object. The model below follows the schemas of the
  source.

  \<^item> A JavaScript Number that is computed from the rate and fee tables is a \<open>jsnumber\<close>:
    a finite number or NaN. A number of a request body and a number in the store is
    finite (JSON has no NaN, and the schema refuses to cast NaN). A finite number is
    modelled as a rational, and \<open>+\<close>, \<open>-\<close>, \<open>*\<close> and \<open>/\<close> on finite numbers stand for the
    operations of the source without their rounding to IEEE doubles; the infinities are
    not modelled.
  \<^item> Identifiers are strings in the source. The strings produced by \<open>uuidv4()\<close> are
    modelled as \<open>Uuid n\<close>; every other string is \<open>Given s\<close>.
  \<^item> A field that may be absent from a request body is an \<open>option\<close>; \<open>None\<close> is
    JavaScript's \<open>undefined\<close>. A field that is present holds a value of the type that
    the rules expect: a number for an amount or a fee, a string for a currency or a
    merchant.
  \<^item> The currency of a stored account is a string. It may be the empty string, which the
    schema refuses on \<open>save\<close>, because the update endpoint of accounts writes without
    running the validators.
  \<^item> Record fields are global names, so the fields \<open>account_id\<close> and \<open>currency\<close> of a
    ledger entry are called \<open>entry_account_id\<close> and \<open>entry_currency\<close>, the fields of a
    payload carry the prefix \<open>p_\<close>, and those of a proposed entry the prefix \<open>d_\<close>.
  \<^item> The fields description, metadata, timestamp, status and account number are not
    modelled: no operation below reads them.
  \<^item> Calls to the storage layer (save, find, findOne) are taken to succeed, except for
    the schema validation that \<open>save\<close> runs on a new event and a new ledger entry. A stored
    document is identified by its position in its collection.
\<close>

datatype ident = Uuid nat | Given string

datatype EntryType = Debit | Credit

datatype jsnumber = Num rat | NaN

datatype error =
    MissingRequiredFields      \<comment> \<open>'Missing required fields in payload for ...'\<close>
  | ExchangeRateUnavailable    \<comment> \<open>'Exchange rate not available for ... to ...'\<close>
  | ImbalanceError             \<comment> \<open>'Ledger entries are not balanced'\<close>
  | InsufficientFundsError     \<comment> \<open>'Insufficient funds in merchant account for (partial) refund'\<close>
  | RefundExceedsOriginalError \<comment> \<open>'Refund amount cannot exceed the original payment amount'\<close>
  | UnsupportedEventType       \<comment> \<open>'Unsupported event type: ...'\<close>
  | AccountNotFound            \<comment> \<open>'Account with ID ... not found'\<close>
  | CurrencyMismatchError      \<comment> \<open>'Currency mismatch: Account currency ... does not match ...'\<close>
  | NotFoundError              \<comment> \<open>'Entry group not found'\<close>
  | AlreadyReversedError       \<comment> \<open>'This entry group has already been reversed'\<close>
  | ValidationError            \<comment> \<open>'... validation failed: ...', thrown by \<open>save\<close>\<close>

record Account =
  account_id :: ident
  account_name :: string
  account_type :: string
  currency :: string
  nature :: EntryType
  balance :: rat

record LedgerEntry =
  entry_id :: ident
  entryGroupId :: ident
  transaction_id :: "ident option"
  event_id :: "ident option"
  entry_account_id :: ident
  entry_type :: EntryType
  amount :: rat
  entry_currency :: string
  isReversal :: bool
  isReversed :: bool
  originalEntryId :: "ident option"

record Payload =
  p_amount :: "rat option"
  p_currency :: "string option"
  p_merchantId :: "string option"
  p_transactionFee :: "rat option"
  p_settlementCurrency :: "string option"
  p_originalAmount :: "rat option"
  p_refundAmount :: "rat option"
  p_transaction_id :: "ident option"
  p_event_id :: "ident option"

record Event =
  ev_event_id :: ident
  ev_event_type :: string
  ev_payload :: Payload

text \<open>An element of the local array \<open>ledgerEntries\<close> of \<open>executeActions\<close>.\<close>

record EntryData =
  d_account_id :: ident
  d_entry_type :: EntryType
  d_amount :: jsnumber
  d_currency :: string

text \<open>
  The parts of \<open>ledgerConfig\<close> that the engine reads: \<open>exchange_rates.rates\<close>, the nested
  table \<open>fx_fees\<close>, and the two account templates \<open>accounts.revenue.transaction_fees\<close> and
  \<open>accounts.revenue.fx_fees\<close> (name, type and nature; their currency is overridden at
  every use). The two tables hold the own properties of the JavaScript objects, with
  numbers as values. The lookup \<open>accounts[type.toLowerCase()]?.[currency]\<close> of
  \<open>findOrCreateAccount\<close> only supplies defaults for fields the caller left out, and every
  caller passes name, currency, type and nature, so it does not appear in the model; a
  configured template is taken to carry no \<open>account_id\<close>, as in the default configuration,
  where the lookup finds nothing at all, and the two revenue templates are taken to pass
  the account schema (a name other than the empty string, a type of its enumeration).
\<close>

record LedgerConfig =
  rates :: "string \<rightharpoonup> rat"
  fx_fees :: "string \<rightharpoonup> (string \<rightharpoonup> rat)"
  transaction_fees_name :: string
  transaction_fees_type :: string
  transaction_fees_nature :: EntryType
  fx_fees_name :: string
  fx_fees_type :: string
  fx_fees_nature :: EntryType

record db =
  accounts :: "Account list"
  ledgerEntries :: "LedgerEntry list"
  events :: "Event list"
  uuid_next :: nat

definition emptyDb :: db where
  "emptyDb = \<lparr>accounts = [], ledgerEntries = [], events = [], uuid_next = 0\<rparr>"

subsection \<open>uuidv4\<close>

text \<open>
  \<open>uuidv4()\<close> returns a random identifier, which collides with no identifier in use. In
  the model it returns \<open>Uuid n\<close> for the least \<open>n\<close> that is neither below the counter
  \<open>uuid_next\<close> of the identifiers generated so far nor at or below the number of a \<open>Uuid\<close>
  that some stored document carries.
\<close>

fun idIndex :: "ident \<Rightarrow> nat" where
  "idIndex (Uuid n) = Suc n"
| "idIndex (Given x) = 0"

fun optionalId :: "ident option \<Rightarrow> ident list" where
  "optionalId None = []"
| "optionalId (Some i) = [i]"

definition entryIds :: "LedgerEntry \<Rightarrow> ident list" where
  "entryIds e =
     [entry_id e, entryGroupId e, entry_account_id e] @ optionalId (transaction_id e)
       @ optionalId (event_id e) @ optionalId (originalEntryId e)"

definition usedIds :: "db \<Rightarrow> ident list" where
  "usedIds s =
     map account_id (accounts s) @ concat (map entryIds (ledgerEntries s))
       @ map ev_event_id (events s)"

definition freshIndex :: "db \<Rightarrow> nat" where
  "freshIndex s = foldr max (map idIndex (usedIds s)) (uuid_next s)"

definition uuidv4 :: "db \<Rightarrow> ident \<times> db" where
  "uuidv4 s = (Uuid (freshIndex s), s\<lparr>uuid_next := Suc (freshIndex s)\<rparr>)"

subsection \<open>JavaScript truthiness and arithmetic\<close>

fun falsyNum :: "rat option \<Rightarrow> bool" where
  "falsyNum None = True"
| "falsyNum (Some x) = (x = 0)"

fun falsyStr :: "string option \<Rightarrow> bool" where
  "falsyStr None = True"
| "falsyStr (Some x) = (x = [])"

fun falsyId :: "ident option \<Rightarrow> bool" where
  "falsyId None = True"
| "falsyId (Some (Given x)) = (x = [])"
| "falsyId (Some (Uuid n)) = False"

text \<open>
  The operators that the source applies to numbers which may be NaN. Every operation on
  NaN gives NaN, and every comparison with NaN is false.
\<close>

fun jsPlus :: "jsnumber \<Rightarrow> jsnumber \<Rightarrow> jsnumber" where
  "jsPlus (Num a) (Num b) = Num (a + b)"
| "jsPlus a b = NaN"

fun jsMinus :: "jsnumber \<Rightarrow> jsnumber \<Rightarrow> jsnumber" where
  "jsMinus (Num a) (Num b) = Num (a - b)"
| "jsMinus a b = NaN"

fun jsTimes :: "jsnumber \<Rightarrow> jsnumber \<Rightarrow> jsnumber" where
  "jsTimes (Num a) (Num b) = Num (a * b)"
| "jsTimes a b = NaN"

fun jsAbs :: "jsnumber \<Rightarrow> jsnumber" where
  "jsAbs (Num a) = Num \<bar>a\<bar>"
| "jsAbs NaN = NaN"

fun jsGreater :: "jsnumber \<Rightarrow> jsnumber \<Rightarrow> bool" where
  "jsGreater (Num a) (Num b) = (a > b)"
| "jsGreater a b = False"

subsection \<open>Property lookup in a plain object\<close>

text \<open>
  The rate table and the fee tables are plain JavaScript objects, so \<open>table[key]\<close> finds
  an own property first and then the properties of \<open>Object.prototype\<close>. The inherited
  values are functions, and for \<open>__proto__\<close> the prototype object itself: all of them are
  truthy, and none of them converts to a number.
\<close>

definition objectPrototypeNames :: "string list" where
  "objectPrototypeNames =
     [''constructor'', ''__defineGetter__'', ''__defineSetter__'', ''hasOwnProperty'',
      ''__lookupGetter__'', ''__lookupSetter__'', ''isPrototypeOf'', ''propertyIsEnumerable'',
      ''toString'', ''valueOf'', ''__proto__'', ''toLocaleString'']"

datatype 'a property = Own 'a | Inherited | Undefined

definition getProperty :: "(string \<rightharpoonup> 'a) \<Rightarrow> string \<Rightarrow> 'a property" where
  "getProperty table key =
     (case table key of
        Some v \<Rightarrow> Own v
      | None \<Rightarrow> if key \<in> set objectPrototypeNames then Inherited else Undefined)"

fun falsyProperty :: "rat property \<Rightarrow> bool" where
  "falsyProperty (Own x) = (x = 0)"
| "falsyProperty Inherited = False"
| "falsyProperty Undefined = True"

section \<open>Helper functions\<close>

subsection \<open>updateAccountBalance\<close>

text \<open>
  \<open>applyFirst P f xs\<close> applies \<open>f\<close> to the first element of \<open>xs\<close> that satisfies \<open>P\<close>:
  the document that \<open>findOne\<close> returned is the one that \<open>save\<close> writes back.
\<close>

fun applyFirst :: "('a \<Rightarrow> bool) \<Rightarrow> ('a \<Rightarrow> 'a) \<Rightarrow> 'a list \<Rightarrow> 'a list" where
  "applyFirst P f [] = []"
| "applyFirst P f (x # xs) = (if P x then f x # xs else x # applyFirst P f xs)"

definition balanceChange :: "EntryType \<Rightarrow> EntryType \<Rightarrow> rat \<Rightarrow> rat" where
  "balanceChange accountNature entryType amt =
     (if accountNature = Debit then (if entryType = Debit then amt else - amt)
      else (if entryType = Credit then amt else - amt))"

definition updateAccountBalance :: "ident \<Rightarrow> EntryType \<Rightarrow> rat \<Rightarrow> string \<Rightarrow> db \<Rightarrow> error + db" where
  "updateAccountBalance accountId entryType amt cur s =
     (case find (\<lambda>a. account_id a = accountId) (accounts s) of
        None \<Rightarrow> Inl AccountNotFound
      | Some account \<Rightarrow>
          if currency account \<noteq> cur then Inl CurrencyMismatchError
          else Inr (s\<lparr>accounts :=
                 applyFirst (\<lambda>a. account_id a = accountId)
                   (\<lambda>a. a\<lparr>balance := balance a + balanceChange (nature a) entryType amt\<rparr>)
                   (accounts s)\<rparr>))"

subsection \<open>findOrCreateAccount\<close>

text \<open>
  The \<open>save\<close> of a new account passes the schema: every call below gives a name that
  begins with a fixed text or comes from a revenue template, a type of the enumeration,
  and a currency that the rule has checked to be truthy.
\<close>

definition findOrCreateAccount ::
  "string \<Rightarrow> string \<Rightarrow> string \<Rightarrow> EntryType \<Rightarrow> db \<Rightarrow> Account \<times> db" where
  "findOrCreateAccount name cur atype ntr s =
     (case find (\<lambda>a. account_name a = name \<and> currency a = cur) (accounts s) of
        Some account \<Rightarrow> (account, s)
      | None \<Rightarrow>
          (let (uniqueId, s1) = uuidv4 s;
               account = \<lparr>account_id = uniqueId, account_name = name, account_type = atype,
                          currency = cur, nature = ntr, balance = 0\<rparr>
           in (account, s1\<lparr>accounts := accounts s1 @ [account]\<rparr>)))"

subsection \<open>getExchangeRate and the FX fee rate\<close>

text \<open>
  Past the check \<open>!rates[from] || !rates[to]\<close> each of the two values is a number other
  than 0 or an inherited property, and a quotient with an inherited property is NaN.
\<close>

definition getExchangeRate :: "LedgerConfig \<Rightarrow> string \<Rightarrow> string \<Rightarrow> error + jsnumber" where
  "getExchangeRate cfg fromCurrency toCurrency =
     (if fromCurrency = toCurrency then Inr (Num 1)
      else if falsyProperty (getProperty (rates cfg) fromCurrency)
              \<or> falsyProperty (getProperty (rates cfg) toCurrency)
        then Inl ExchangeRateUnavailable
      else (case (getProperty (rates cfg) toCurrency, getProperty (rates cfg) fromCurrency) of
              (Own rateTo, Own rateFrom) \<Rightarrow> Inr (Num (rateTo / rateFrom))
            | _ \<Rightarrow> Inr NaN))"

text \<open>
  \<open>ledgerConfig.fx_fees[source]?.[settlement] || 0\<close>. An inherited property in the place
  of the fee rate makes the product with the amount NaN, so it is modelled as NaN. A row
  \<open>fx_fees[source]\<close> that is itself inherited is modelled as NaN as well: the FX fee is
  then NaN whenever the exchange rate is, which is the case unless the rate table has an
  own entry for a name of \<open>Object.prototype\<close> that the fee table lacks.
\<close>

definition fxFeeRate :: "LedgerConfig \<Rightarrow> string \<Rightarrow> string \<Rightarrow> jsnumber" where
  "fxFeeRate cfg sourceCurrency settlementCurrency =
     (case getProperty (fx_fees cfg) sourceCurrency of
        Undefined \<Rightarrow> Num 0
      | Inherited \<Rightarrow> NaN
      | Own row \<Rightarrow>
          (case getProperty row settlementCurrency of
             Undefined \<Rightarrow> Num 0
           | Inherited \<Rightarrow> NaN
           | Own r \<Rightarrow> Num r))"

section \<open>executeActions\<close>

text \<open>
  An exception leaves the database as it is at the moment of the throw, so every operation
  returns its result (\<open>Inl\<close> the error) together with the database.
\<close>

definition newEntryData :: "Account \<Rightarrow> EntryType \<Rightarrow> jsnumber \<Rightarrow> string \<Rightarrow> EntryData" where
  "newEntryData account etype amt cur =
     \<lparr>d_account_id = account_id account, d_entry_type = etype, d_amount = amt, d_currency = cur\<rparr>"

text \<open>
  The conversion block of the PaymentCaptured case: the amount and the fee in the
  settlement currency, and the FX fee.
\<close>

definition settlementAmounts ::
  "LedgerConfig \<Rightarrow> rat \<Rightarrow> rat \<Rightarrow> string \<Rightarrow> string \<Rightarrow> error + jsnumber \<times> jsnumber \<times> jsnumber" where
  "settlementAmounts cfg amt transactionFee sourceCurrency settlementCurrency =
     (if sourceCurrency \<noteq> settlementCurrency then
        (case getExchangeRate cfg sourceCurrency settlementCurrency of
           Inl e \<Rightarrow> Inl e
         | Inr exchangeRate \<Rightarrow>
             Inr (jsTimes (Num amt) exchangeRate, jsTimes (Num transactionFee) exchangeRate,
                  jsTimes (jsTimes (Num amt) (fxFeeRate cfg sourceCurrency settlementCurrency))
                    exchangeRate))
      else Inr (Num amt, Num transactionFee, Num 0))"

text \<open>
  Each case of the switch, up to its balance check: the proposed entries with the running
  totals \<open>totalDebits\<close> and \<open>totalCredits\<close>.
\<close>

definition paymentCapturedEntries ::
  "LedgerConfig \<Rightarrow> Payload \<Rightarrow> db \<Rightarrow> (error + EntryData list \<times> jsnumber \<times> jsnumber) \<times> db" where
  "paymentCapturedEntries cfg payload s =
     (if falsyNum (p_amount payload) \<or> falsyStr (p_currency payload)
         \<or> falsyStr (p_merchantId payload) \<or> p_transactionFee payload = None
      then (Inl MissingRequiredFields, s)
      else
        let amt = the (p_amount payload);
            sourceCurrency = the (p_currency payload);
            merchantId = the (p_merchantId payload);
            transactionFee = the (p_transactionFee payload);
            settlementCurrency =
              (if falsyStr (p_settlementCurrency payload) then sourceCurrency
               else the (p_settlementCurrency payload))
        in case settlementAmounts cfg amt transactionFee sourceCurrency settlementCurrency of
             Inl e \<Rightarrow> (Inl e, s)
           | Inr (totalAmountInSettlementCurrency, transactionFeeInSettlementCurrency, fxFee) \<Rightarrow>
               let (cash, s1) = findOrCreateAccount (''Cash - '' @ settlementCurrency)
                                  settlementCurrency ''Asset'' Debit s;
                   e1 = newEntryData cash Debit totalAmountInSettlementCurrency settlementCurrency;
                   totalDebits = jsPlus (Num 0) totalAmountInSettlementCurrency;
                   (payable, s2) = findOrCreateAccount (''Merchant Payable - '' @ merchantId)
                                     settlementCurrency ''Liability'' Credit s1;
                   payableAmount = jsMinus (jsMinus totalAmountInSettlementCurrency
                                              transactionFeeInSettlementCurrency) fxFee;
                   e2 = newEntryData payable Credit payableAmount settlementCurrency;
                   totalCredits2 = jsPlus (Num 0) payableAmount;
                   (feeRevenue, s3) = findOrCreateAccount (transaction_fees_name cfg)
                                        settlementCurrency (transaction_fees_type cfg)
                                        (transaction_fees_nature cfg) s2;
                   e3 = newEntryData feeRevenue Credit transactionFeeInSettlementCurrency settlementCurrency;
                   totalCredits3 = jsPlus totalCredits2 transactionFeeInSettlementCurrency
               in if jsGreater fxFee (Num 0) then
                    let (fxRevenue, s4) = findOrCreateAccount (fx_fees_name cfg)
                                            settlementCurrency (fx_fees_type cfg)
                                            (fx_fees_nature cfg) s3;
                        e4 = newEntryData fxRevenue Credit fxFee settlementCurrency
                    in (Inr ([e1, e2, e3, e4], totalDebits, jsPlus totalCredits3 fxFee), s4)
                  else (Inr ([e1, e2, e3], totalDebits, totalCredits3), s3))"

text \<open>The \<open>forEach\<close> of the two refund cases, which adds up the proposed entries.\<close>

definition calculateTotals :: "EntryData list \<Rightarrow> jsnumber \<times> jsnumber" where
  "calculateTotals es =
     foldl (\<lambda>(totalDebits, totalCredits) entry.
              if d_entry_type entry = Debit then (jsPlus totalDebits (d_amount entry), totalCredits)
              else (totalDebits, jsPlus totalCredits (d_amount entry))) (Num 0, Num 0) es"

definition refundEntries ::
  "string \<Rightarrow> string \<Rightarrow> rat \<Rightarrow> db \<Rightarrow> (error + EntryData list \<times> jsnumber \<times> jsnumber) \<times> db" where
  "refundEntries merchantId cur amt s =
     (let (merchantPayable, s1) = findOrCreateAccount (''Merchant Payable - '' @ merchantId)
                                    cur ''Liability'' Credit s
      in if balance merchantPayable < amt then (Inl InsufficientFundsError, s1)
         else
           let (cash, s2) = findOrCreateAccount (''Cash - '' @ cur) cur ''Asset'' Debit s1;
               es = [newEntryData merchantPayable Debit (Num amt) cur,
                     newEntryData cash Credit (Num amt) cur]
           in (Inr (es, calculateTotals es), s2))"

definition paymentRefundedEntries ::
  "Payload \<Rightarrow> db \<Rightarrow> (error + EntryData list \<times> jsnumber \<times> jsnumber) \<times> db" where
  "paymentRefundedEntries payload s =
     (if falsyNum (p_amount payload) \<or> falsyStr (p_currency payload)
         \<or> falsyStr (p_merchantId payload)
      then (Inl MissingRequiredFields, s)
      else refundEntries (the (p_merchantId payload)) (the (p_currency payload))
             (the (p_amount payload)) s)"

definition paymentPartiallyRefundedEntries ::
  "Payload \<Rightarrow> db \<Rightarrow> (error + EntryData list \<times> jsnumber \<times> jsnumber) \<times> db" where
  "paymentPartiallyRefundedEntries payload s =
     (if falsyNum (p_originalAmount payload) \<or> falsyNum (p_refundAmount payload)
         \<or> falsyStr (p_currency payload) \<or> falsyStr (p_merchantId payload)
      then (Inl MissingRequiredFields, s)
      else if the (p_refundAmount payload) > the (p_originalAmount payload)
        then (Inl RefundExceedsOriginalError, s)
      else refundEntries (the (p_merchantId payload)) (the (p_currency payload))
             (the (p_refundAmount payload)) s)"

text \<open>The switch on the event type, without the balance checks.\<close>

definition proposedEntries ::
  "LedgerConfig \<Rightarrow> string \<Rightarrow> Payload \<Rightarrow> db
     \<Rightarrow> (error + EntryData list \<times> jsnumber \<times> jsnumber) \<times> db" where
  "proposedEntries cfg eventType payload s =
     (if eventType = ''PaymentCaptured'' then paymentCapturedEntries cfg payload s
      else if eventType = ''PaymentRefunded'' then paymentRefundedEntries payload s
      else if eventType = ''PaymentPartiallyRefunded'' then paymentPartiallyRefundedEntries payload s
      else (Inl UnsupportedEventType, s))"

text \<open>
  The check \<open>Math.abs(totalDebits - totalCredits) > 0.001\<close> that closes each of the three
  cases.
\<close>

definition ensureBalance ::
  "(error + EntryData list \<times> jsnumber \<times> jsnumber) \<times> db \<Rightarrow> (error + EntryData list) \<times> db" where
  "ensureBalance r =
     (case r of
        (Inl e, s) \<Rightarrow> (Inl e, s)
      | (Inr (es, totalDebits, totalCredits), s) \<Rightarrow>
          if jsGreater (jsAbs (jsMinus totalDebits totalCredits)) (Num (1 / 1000))
          then (Inl ImbalanceError, s)
          else (Inr es, s))"

text \<open>
  \<open>new LedgerEntry({...})\<close> followed by \<open>save()\<close>. Mongoose casts the amount to a Number,
  which fails for NaN, and the schema requires a currency other than the empty string. A
  document that fails either check is not stored, and \<open>save\<close> throws a ValidationError.
  \<open>schemaAmount\<close> gives the amount of a document that passes.
\<close>

fun schemaAmount :: "jsnumber \<Rightarrow> string \<Rightarrow> rat option" where
  "schemaAmount NaN cur = None"
| "schemaAmount (Num x) cur = (if cur = [] then None else Some x)"

text \<open>The loop that saves each entry and then updates the balance of its account.\<close>

fun saveEntries ::
  "ident \<Rightarrow> ident \<Rightarrow> ident \<Rightarrow> EntryData list \<Rightarrow> LedgerEntry list \<Rightarrow> db
     \<Rightarrow> (error + LedgerEntry list) \<times> db" where
  "saveEntries groupId transactionId eventId [] createdEntries s = (Inr createdEntries, s)"
| "saveEntries groupId transactionId eventId (entryData # rest) createdEntries s =
     (let (entryId, s1) = uuidv4 s
      in case schemaAmount (d_amount entryData) (d_currency entryData) of
           None \<Rightarrow> (Inl ValidationError, s1)
         | Some amt \<Rightarrow>
             (let ledgerEntry = \<lparr>entry_id = entryId, entryGroupId = groupId,
                                 transaction_id = Some transactionId, event_id = Some eventId,
                                 entry_account_id = d_account_id entryData,
                                 entry_type = d_entry_type entryData,
                                 amount = amt,
                                 entry_currency = d_currency entryData,
                                 isReversal = False, isReversed = False,
                                 originalEntryId = None\<rparr>;
                  s2 = s1\<lparr>ledgerEntries := ledgerEntries s1 @ [ledgerEntry]\<rparr>
              in case updateAccountBalance (entry_account_id ledgerEntry) (entry_type ledgerEntry)
                        (amount ledgerEntry) (entry_currency ledgerEntry) s2 of
                   Inl e \<Rightarrow> (Inl e, s2)
                 | Inr s3 \<Rightarrow> saveEntries groupId transactionId eventId rest
                               (createdEntries @ [ledgerEntry]) s3))"

text \<open>\<open>given || uuidv4()\<close>: the identifier is generated only when the given one is falsy.\<close>

definition orUuidv4 :: "ident option \<Rightarrow> db \<Rightarrow> ident \<times> db" where
  "orUuidv4 given s = (if falsyId given then uuidv4 s else (the given, s))"

text \<open>The three identifiers that \<open>executeActions\<close> fixes before it looks at the event.\<close>

definition newIds :: "Payload \<Rightarrow> db \<Rightarrow> (ident \<times> ident \<times> ident) \<times> db" where
  "newIds payload s =
     (let (entryGroupId, s1) = uuidv4 s;
          (transactionId, s2) = orUuidv4 (p_transaction_id payload) s1;
          (eventId, s3) = orUuidv4 (p_event_id payload) s2
      in ((entryGroupId, transactionId, eventId), s3))"

definition executeActions ::
  "LedgerConfig \<Rightarrow> string \<Rightarrow> Payload \<Rightarrow> db \<Rightarrow> (error + LedgerEntry list) \<times> db" where
  "executeActions cfg eventType payload s =
     (let ((entryGroupId, transactionId, eventId), s3) = newIds payload s
      in case ensureBalance (proposedEntries cfg eventType payload s3) of
           (Inl e, s4) \<Rightarrow> (Inl e, s4)
         | (Inr es, s4) \<Rightarrow> saveEntries entryGroupId transactionId eventId es [] s4)"

section \<open>The endpoints\<close>

subsection \<open>POST /events\<close>

text \<open>
  The handler saves the event, then processes it. The schema of an event requires an
  event type other than the empty string and a payload: when one of them is missing,
  \<open>save\<close> throws a ValidationError, the event is not stored and nothing is processed. The
  first component of the result is the HTTP status.
\<close>

definition postEvents ::
  "LedgerConfig \<Rightarrow> string \<Rightarrow> Payload option \<Rightarrow> db
     \<Rightarrow> (nat \<times> (error + LedgerEntry list)) \<times> db" where
  "postEvents cfg eventType payload s =
     (let (eventId, s1) = uuidv4 s
      in case (if eventType = [] then None else payload) of
           None \<Rightarrow> ((500, Inl ValidationError), s1)
         | Some p \<Rightarrow>
             (let event = \<lparr>ev_event_id = eventId, ev_event_type = eventType, ev_payload = p\<rparr>;
                  s2 = s1\<lparr>events := events s1 @ [event]\<rparr>
              in case executeActions cfg eventType (p\<lparr>p_event_id := Some eventId\<rparr>) s2 of
                   (Inr createdEntries, s3) \<Rightarrow> ((200, Inr createdEntries), s3)
                 | (Inl e, s3) \<Rightarrow>
                     if e = InsufficientFundsError \<or> e = RefundExceedsOriginalError
                     then ((400, Inl e), s3) else ((500, Inl e), s3)))"

subsection \<open>POST /accounting-entries/:entryGroupId/reverse\<close>

text \<open>
  \<open>LedgerEntry.find({ entryGroupId })\<close>: the stored entries of the group, each with its
  position in the collection.
\<close>

definition findByGroup :: "ident \<Rightarrow> LedgerEntry list \<Rightarrow> (nat \<times> LedgerEntry) list" where
  "findByGroup groupId es =
     filter (\<lambda>(i, e). entryGroupId e = groupId) (zip [0..<length es] es)"

definition reversalAmountCurrency ::
  "LedgerConfig \<Rightarrow> Account \<Rightarrow> LedgerEntry \<Rightarrow> error + jsnumber \<times> string" where
  "reversalAmountCurrency cfg account originalEntry =
     (if currency account \<noteq> entry_currency originalEntry then
        (case getExchangeRate cfg (entry_currency originalEntry) (currency account) of
           Inl e \<Rightarrow> Inl e
         | Inr exchangeRate \<Rightarrow>
             Inr (jsTimes (Num (amount originalEntry)) exchangeRate, currency account))
      else Inr (Num (amount originalEntry), entry_currency originalEntry))"

definition flipEntryType :: "EntryType \<Rightarrow> EntryType" where
  "flipEntryType t = (if t = Debit then Credit else Debit)"

text \<open>
  The reversal entry that the first loop constructs: \<open>None\<close> is a document that its
  \<open>save\<close> in the second loop refuses.
\<close>

definition newReversalEntry ::
  "ident \<Rightarrow> ident \<Rightarrow> LedgerEntry \<Rightarrow> jsnumber \<Rightarrow> string \<Rightarrow> LedgerEntry option" where
  "newReversalEntry entryId reversalGroupId originalEntry reversalAmount reversalCurrency =
     map_option
       (\<lambda>amt. \<lparr>entry_id = entryId, entryGroupId = reversalGroupId,
               transaction_id = transaction_id originalEntry,
               event_id = event_id originalEntry,
               entry_account_id = entry_account_id originalEntry,
               entry_type = flipEntryType (entry_type originalEntry),
               amount = amt,
               entry_currency = reversalCurrency,
               isReversal = True, isReversed = False,
               originalEntryId = Some (entry_id originalEntry)\<rparr>)
       (schemaAmount reversalAmount reversalCurrency)"

text \<open>
  The first loop builds one reversal entry per original entry and marks the original as
  reversed in the store. The position \<open>i\<close> comes from \<open>findByGroup\<close> and is within the
  collection.
\<close>

fun buildReversalEntries ::
  "LedgerConfig \<Rightarrow> ident \<Rightarrow> (nat \<times> LedgerEntry) list \<Rightarrow> LedgerEntry option list \<Rightarrow> db
     \<Rightarrow> (error + LedgerEntry option list) \<times> db" where
  "buildReversalEntries cfg reversalGroupId [] reversalEntries s = (Inr reversalEntries, s)"
| "buildReversalEntries cfg reversalGroupId ((i, originalEntry) # rest) reversalEntries s =
     (case find (\<lambda>a. account_id a = entry_account_id originalEntry) (accounts s) of
        None \<Rightarrow> (Inl AccountNotFound, s)
      | Some account \<Rightarrow>
          (case reversalAmountCurrency cfg account originalEntry of
             Inl e \<Rightarrow> (Inl e, s)
           | Inr (reversalAmount, reversalCurrency) \<Rightarrow>
               (let (entryId, s1) = uuidv4 s;
                    reversalEntry = newReversalEntry entryId reversalGroupId originalEntry
                                      reversalAmount reversalCurrency;
                    s2 = s1\<lparr>ledgerEntries :=
                            (ledgerEntries s1)[i := (ledgerEntries s1 ! i)\<lparr>isReversed := True\<rparr>]\<rparr>
                in buildReversalEntries cfg reversalGroupId rest
                     (reversalEntries @ [reversalEntry]) s2)))"

text \<open>
  The second loop saves the reversal entries and updates the balances; it returns the
  documents it has saved.
\<close>

fun saveReversalEntries ::
  "LedgerEntry option list \<Rightarrow> db \<Rightarrow> (error + LedgerEntry list) \<times> db" where
  "saveReversalEntries [] s = (Inr [], s)"
| "saveReversalEntries (None # rest) s = (Inl ValidationError, s)"
| "saveReversalEntries (Some reversalEntry # rest) s =
     (let s1 = s\<lparr>ledgerEntries := ledgerEntries s @ [reversalEntry]\<rparr>
      in case updateAccountBalance (entry_account_id reversalEntry) (entry_type reversalEntry)
                (amount reversalEntry) (entry_currency reversalEntry) s1 of
           Inl e \<Rightarrow> (Inl e, s1)
         | Inr s2 \<Rightarrow>
             (case saveReversalEntries rest s2 of
                (Inl e, s3) \<Rightarrow> (Inl e, s3)
              | (Inr saved, s3) \<Rightarrow> (Inr (reversalEntry # saved), s3)))"

definition reverseEntries ::
  "LedgerConfig \<Rightarrow> ident \<Rightarrow> db \<Rightarrow> (nat \<times> (error + ident \<times> LedgerEntry list)) \<times> db" where
  "reverseEntries cfg groupId s =
     (let originalEntries = findByGroup groupId (ledgerEntries s)
      in if originalEntries = [] then ((404, Inl NotFoundError), s)
         else if list_ex (\<lambda>(i, e). isReversed e) originalEntries
           then ((400, Inl AlreadyReversedError), s)
         else
           let (reversalEntryGroupId, s1) = uuidv4 s
           in case buildReversalEntries cfg reversalEntryGroupId originalEntries [] s1 of
                (Inl e, s2) \<Rightarrow> ((500, Inl e), s2)
              | (Inr reversalEntries, s2) \<Rightarrow>
                  (case saveReversalEntries reversalEntries s2 of
                     (Inl e, s3) \<Rightarrow> ((500, Inl e), s3)
                   | (Inr saved, s3) \<Rightarrow> ((201, Inr (reversalEntryGroupId, saved)), s3)))"

section \<open>Definitions used to state the properties\<close>

subsection \<open>Configurations and payloads\<close>

text \<open>The configuration that the source falls back to (\<open>defaultConfig\<close>).\<close>

definition defaultConfig :: LedgerConfig where
  "defaultConfig =
     \<lparr>rates = [''EUR'' \<mapsto> 0.92, ''GBP'' \<mapsto> 0.79, ''USD'' \<mapsto> 1],
      fx_fees = [''USD'' \<mapsto> [''EUR'' \<mapsto> 0.01, ''GBP'' \<mapsto> 0.01],
                 ''EUR'' \<mapsto> [''USD'' \<mapsto> 0.01, ''GBP'' \<mapsto> 0.01],
                 ''GBP'' \<mapsto> [''USD'' \<mapsto> 0.01, ''EUR'' \<mapsto> 0.01]],
      transaction_fees_name = ''Transaction Fee Revenue'',
      transaction_fees_type = ''Revenue'',
      transaction_fees_nature = Credit,
      fx_fees_name = ''FX Fee Revenue'',
      fx_fees_type = ''Revenue'',
      fx_fees_nature = Credit\<rparr>"



definition emptyPayload :: Payload where
  "emptyPayload =
     \<lparr>p_amount = None, p_currency = None, p_merchantId = None, p_transactionFee = None,
      p_settlementCurrency = None, p_originalAmount = None, p_refundAmount = None,
      p_transaction_id = None, p_event_id = None\<rparr>"

definition capturePayload :: "rat \<Rightarrow> string \<Rightarrow> string \<Rightarrow> rat \<Rightarrow> string \<Rightarrow> Payload" where
  "capturePayload amt cur merchant fee settlement =
     emptyPayload\<lparr>p_amount := Some amt, p_currency := Some cur, p_merchantId := Some merchant,
                  p_transactionFee := Some fee, p_settlementCurrency := Some settlement\<rparr>"

definition refundPayload :: "rat \<Rightarrow> string \<Rightarrow> string \<Rightarrow> Payload" where
  "refundPayload amt cur merchant =
     emptyPayload\<lparr>p_amount := Some amt, p_currency := Some cur, p_merchantId := Some merchant\<rparr>"

definition partialRefundPayload :: "rat \<Rightarrow> rat \<Rightarrow> string \<Rightarrow> string \<Rightarrow> Payload" where
  "partialRefundPayload original refund cur merchant =
     emptyPayload\<lparr>p_originalAmount := Some original, p_refundAmount := Some refund,
                  p_currency := Some cur, p_merchantId := Some merchant\<rparr>"

subsection \<open>Databases\<close>

definition merchantAccount :: "string \<Rightarrow> string \<Rightarrow> rat \<Rightarrow> Account" where
  "merchantAccount merchant cur bal =
     \<lparr>account_id = Uuid 0, account_name = ''Merchant Payable - '' @ merchant,
      account_type = ''Liability'', currency = cur, nature = Credit, balance = bal\<rparr>"

text \<open>A database that holds one account, Merchant Payable of M1 in USD, with balance 30.\<close>

definition merchantDb :: db where
  "merchantDb = emptyDb\<lparr>accounts := [merchantAccount ''M1'' ''USD'' 30], uuid_next := 1\<rparr>"

text \<open>A sequence of requests, each served under the configuration current at the time.\<close>

datatype request = PostEvent string "Payload option" | ReverseGroup ident

fun serve :: "LedgerConfig \<times> request \<Rightarrow> db \<Rightarrow> db" where
  "serve (cfg, PostEvent eventType payload) s = snd (postEvents cfg eventType payload s)"
| "serve (cfg, ReverseGroup groupId) s = snd (reverseEntries cfg groupId s)"

definition run :: "(LedgerConfig \<times> request) list \<Rightarrow> db \<Rightarrow> db" where
  "run requests s = foldl (\<lambda>s r. serve r s) s requests"

text \<open>
  The database after three requests to the empty ledger: a capture of 100 USD for the
  merchant M1 without a fee, the refund of the 100 USD, and the reversal of the capture.
  The Merchant Payable account of M1 then has the balance -100.
\<close>

definition overdrawnRequests :: "(LedgerConfig \<times> request) list" where
  "overdrawnRequests =
     [(defaultConfig, PostEvent ''PaymentCaptured'' (Some (capturePayload 100 ''USD'' ''M1'' 0 ''USD''))),
      (defaultConfig, PostEvent ''PaymentRefunded'' (Some (refundPayload 100 ''USD'' ''M1''))),
      (defaultConfig, ReverseGroup (Uuid 1))]"

definition overdrawnDb :: db where
  "overdrawnDb = run overdrawnRequests emptyDb"

text \<open>
  A posted group of 100 USD, debited to a cash account and credited to a merchant account.
  In \<open>postedDb\<close> both accounts still have the currency of their entries. In \<open>editedDb\<close> the
  currency of the cash account has since been changed to EUR, in \<open>editedJpyDb\<close> to JPY,
  for which the default configuration has no rate, and in \<open>editedEmptyDb\<close> to the empty
  string. In \<open>orphanDb\<close> the merchant account is the only account.
\<close>

definition postedEntries :: "LedgerEntry list" where
  "postedEntries =
     [\<lparr>entry_id = Uuid 3, entryGroupId = Uuid 0, transaction_id = None, event_id = None,
       entry_account_id = Uuid 1, entry_type = Debit, amount = 100, entry_currency = ''USD'',
       isReversal = False, isReversed = False, originalEntryId = None\<rparr>,
      \<lparr>entry_id = Uuid 4, entryGroupId = Uuid 0, transaction_id = None, event_id = None,
       entry_account_id = Uuid 2, entry_type = Credit, amount = 100, entry_currency = ''USD'',
       isReversal = False, isReversed = False, originalEntryId = None\<rparr>]"

definition postedAccounts :: "string \<Rightarrow> Account list" where
  "postedAccounts cashCurrency =
     [\<lparr>account_id = Uuid 1, account_name = ''Cash - USD'', account_type = ''Asset'',
       currency = cashCurrency, nature = Debit, balance = 100\<rparr>,
      \<lparr>account_id = Uuid 2, account_name = ''Merchant Payable - M1'', account_type = ''Liability'',
       currency = ''USD'', nature = Credit, balance = 100\<rparr>]"

definition postedDb :: db where
  "postedDb = \<lparr>accounts = postedAccounts ''USD'', ledgerEntries = postedEntries, events = [],
               uuid_next = 5\<rparr>"

definition editedDb :: db where
  "editedDb = postedDb\<lparr>accounts := postedAccounts ''EUR''\<rparr>"




subsection \<open>Effects of event processing\<close>

text \<open>
  \<open>untouched s s'\<close>: from \<open>s\<close> to \<open>s'\<close> no ledger entry was written and no account that
  existed was changed; the accounts that were added have the balance 0.
\<close>

definition untouched :: "db \<Rightarrow> db \<Rightarrow> bool" where
  "untouched s s' \<longleftrightarrow>
     ledgerEntries s' = ledgerEntries s \<and>
     take (length (accounts s)) (accounts s') = accounts s \<and>
     list_all (\<lambda>a. balance a = 0) (drop (length (accounts s)) (accounts s'))"

text \<open>
  The balance that the refund rules compare with the refund amount: the balance of the
  account that \<open>findOrCreateAccount\<close> returns for Merchant Payable (0 when the account is
  created by that call).
\<close>

definition merchantPayableBalance :: "string \<Rightarrow> string \<Rightarrow> db \<Rightarrow> rat" where
  "merchantPayableBalance merchantId cur s =
     balance (fst (findOrCreateAccount (''Merchant Payable - '' @ merchantId) cur
                     ''Liability'' Credit s))"

subsection \<open>Reversals\<close>

text \<open>The entries of a group, as stored, and the sum of the amounts of the entries of one type.\<close>

definition groupEntries :: "ident \<Rightarrow> db \<Rightarrow> LedgerEntry list" where
  "groupEntries groupId s = filter (\<lambda>e. entryGroupId e = groupId) (ledgerEntries s)"

definition entriesTotal :: "EntryType \<Rightarrow> LedgerEntry list \<Rightarrow> rat" where
  "entriesTotal t es = sum_list (map amount (filter (\<lambda>e. entry_type e = t) es))"

text \<open>
  The conversion as the specification words it (4.1): \<open>rate(from, to)\<close> is 1 for equal
  currencies and \<open>rates[to] / rates[from]\<close> for two currencies of the rate table, and
  \<open>convert(amount, from, to) = amount * rate(from, to)\<close>. These two definitions do not
  refer to \<open>getExchangeRate\<close>.
\<close>

definition specRate :: "LedgerConfig \<Rightarrow> string \<Rightarrow> string \<Rightarrow> rat option" where
  "specRate cfg fromCurrency toCurrency =
     (if fromCurrency = toCurrency then Some 1
      else (case (rates cfg fromCurrency, rates cfg toCurrency) of
              (Some rateFrom, Some rateTo) \<Rightarrow> Some (rateTo / rateFrom)
            | _ \<Rightarrow> None))"

definition specConvert :: "LedgerConfig \<Rightarrow> rat \<Rightarrow> string \<Rightarrow> string \<Rightarrow> rat option" where
  "specConvert cfg amt fromCurrency toCurrency =
     map_option (\<lambda>rate. amt * rate) (specRate cfg fromCurrency toCurrency)"

text \<open>
  The amount and the currency in which the specification (4.6) has an entry reversed:
  those of the entry when its account still has the currency of the entry, and otherwise
  the amount converted from the currency of the entry into the currency of the account.
\<close>

definition specReversalAmount :: "LedgerConfig \<Rightarrow> db \<Rightarrow> LedgerEntry \<Rightarrow> (rat \<times> string) option" where
  "specReversalAmount cfg s e =
     (case find (\<lambda>a. account_id a = entry_account_id e) (accounts s) of
        None \<Rightarrow> None
      | Some account \<Rightarrow>
          if currency account = entry_currency e then Some (amount e, entry_currency e)
          else map_option (\<lambda>converted. (converted, currency account))
                 (specConvert cfg (amount e) (entry_currency e) (currency account)))"

text \<open>The sum of the amounts in which the entries of one type are to be reversed.\<close>

definition specReversalTotal :: "LedgerConfig \<Rightarrow> db \<Rightarrow> EntryType \<Rightarrow> LedgerEntry list \<Rightarrow> rat" where
  "specReversalTotal cfg s t es =
     sum_list (map (\<lambda>e. case specReversalAmount cfg s e of Some (x, c) \<Rightarrow> x | None \<Rightarrow> 0)
                 (filter (\<lambda>e. entry_type e = t) es))"

text \<open>
  An entry can be reversed when its account exists and has a currency other than the
  empty string, and, where that currency differs from the currency of the entry, both
  currencies are in the rate table with a multiplier other than 0.
\<close>

definition hasRate :: "LedgerConfig \<Rightarrow> string \<Rightarrow> bool" where
  "hasRate cfg c = (case rates cfg c of Some r \<Rightarrow> r \<noteq> 0 | None \<Rightarrow> False)"

definition reversible :: "LedgerConfig \<Rightarrow> db \<Rightarrow> LedgerEntry \<Rightarrow> bool" where
  "reversible cfg s e =
     (case find (\<lambda>a. account_id a = entry_account_id e) (accounts s) of
        None \<Rightarrow> False
      | Some account \<Rightarrow>
          currency account \<noteq> [] \<and>
          (currency account = entry_currency e \<or>
           hasRate cfg (entry_currency e) \<and> hasRate cfg (currency account)))"

text \<open>The currency of the account that \<open>Account.findOne({ account_id })\<close> returns.\<close>

definition accountCurrency :: "db \<Rightarrow> ident \<Rightarrow> string option" where
  "accountCurrency s i = map_option currency (find (\<lambda>a. account_id a = i) (accounts s))"

text \<open>Two databases hold the same accounts, up to their balances.\<close>

definition sameAccountsButBalances :: "db \<Rightarrow> db \<Rightarrow> bool" where
  "sameAccountsButBalances s s' \<longleftrightarrow>
     map (\<lambda>a. a\<lparr>balance := 0\<rparr>) (accounts s') = map (\<lambda>a. a\<lparr>balance := 0\<rparr>) (accounts s)"

text \<open>The flip of the specification: Debit becomes Credit, and Credit becomes Debit.\<close>

fun oppositeType :: "EntryType \<Rightarrow> EntryType" where
  "oppositeType Debit = Credit"
| "oppositeType Credit = Debit"

text \<open>
  What a reversal entry records, apart from its own identifier, and what the reversal of
  an original entry has to record.
\<close>

definition reversalSummary ::
  "LedgerEntry \<Rightarrow> ident \<times> ident \<times> EntryType \<times> (rat \<times> string) option \<times> bool \<times> bool \<times> ident option" where
  "reversalSummary r =
     (entryGroupId r, entry_account_id r, entry_type r, Some (amount r, entry_currency r),
      isReversal r, isReversed r, originalEntryId r)"

definition expectedReversal ::
  "LedgerConfig \<Rightarrow> db \<Rightarrow> ident \<Rightarrow> LedgerEntry
     \<Rightarrow> ident \<times> ident \<times> EntryType \<times> (rat \<times> string) option \<times> bool \<times> bool \<times> ident option" where
  "expectedReversal cfg s reversalGroupId e =
     (reversalGroupId, entry_account_id e, oppositeType (entry_type e),
      specReversalAmount cfg s e, True, False, Some (entry_id e))"

definition markGroupReversed :: "ident \<Rightarrow> LedgerEntry list \<Rightarrow> LedgerEntry list" where
  "markGroupReversed groupId es =
     map (\<lambda>e. if entryGroupId e = groupId then e\<lparr>isReversed := True\<rparr> else e) es"

subsection \<open>Totals\<close>








section \<open>Verified properties\<close>

subsection \<open>Exchange rates\<close>

lemma getExchangeRate_error:
  "getExchangeRate cfg a b = Inl e \<Longrightarrow> e = ExchangeRateUnavailable"
  by (auto simp: getExchangeRate_def split: if_splits prod.splits property.splits)

lemma getExchangeRate_number:
  assumes "getExchangeRate cfg a b = Inr (Num q)" "a \<noteq> b"
  shows "\<exists>ra rb. rates cfg a = Some ra \<and> rates cfg b = Some rb \<and> ra \<noteq> 0 \<and> rb \<noteq> 0
           \<and> q = rb / ra"
  using assms
  by (cases "rates cfg a"; cases "rates cfg b")
     (auto simp: getExchangeRate_def getProperty_def split: if_splits)

lemma getExchangeRate_rates:
  assumes "a \<noteq> b" "rates cfg a = Some ra" "rates cfg b = Some rb" "ra \<noteq> 0" "rb \<noteq> 0"
  shows "getExchangeRate cfg a b = Inr (Num (rb / ra))"
  using assms by (simp add: getExchangeRate_def getProperty_def)




subsection \<open>Applying an entry to an account\<close>




subsection \<open>Identifiers\<close>




subsection \<open>What the steps of event processing leave alone\<close>

lemma untouched_iff:
  "untouched s s' \<longleftrightarrow>
     ledgerEntries s' = ledgerEntries s \<and>
     (\<exists>new. accounts s' = accounts s @ new \<and> list_all (\<lambda>a. balance a = 0) new)"
proof
  assume u: "untouched s s'"
  have "accounts s' = take (length (accounts s)) (accounts s') @ drop (length (accounts s)) (accounts s')"
    by simp
  with u show "ledgerEntries s' = ledgerEntries s \<and>
     (\<exists>new. accounts s' = accounts s @ new \<and> list_all (\<lambda>a. balance a = 0) new)"
    unfolding untouched_def by metis
next
  assume "ledgerEntries s' = ledgerEntries s \<and>
     (\<exists>new. accounts s' = accounts s @ new \<and> list_all (\<lambda>a. balance a = 0) new)"
  then show "untouched s s'"
    by (auto simp: untouched_def)
qed


lemma untouched_trans: "untouched s s1 \<Longrightarrow> untouched s1 s2 \<Longrightarrow> untouched s s2"
  by (auto simp: untouched_iff)

lemma untouched_cong:
  "accounts s' = accounts s \<Longrightarrow> ledgerEntries s' = ledgerEntries s \<Longrightarrow> untouched s s'"
  by (simp add: untouched_def)

lemma uuidv4_fields:
  "accounts (snd (uuidv4 s)) = accounts s"
  "ledgerEntries (snd (uuidv4 s)) = ledgerEntries s"
  "events (snd (uuidv4 s)) = events s"
  by (simp_all add: uuidv4_def)

lemma orUuidv4_fields:
  "accounts (snd (orUuidv4 g s)) = accounts s"
  "ledgerEntries (snd (orUuidv4 g s)) = ledgerEntries s"
  "events (snd (orUuidv4 g s)) = events s"
  by (simp_all add: orUuidv4_def uuidv4_def)

lemma newIds_fields:
  "accounts (snd (newIds p s)) = accounts s"
  "ledgerEntries (snd (newIds p s)) = ledgerEntries s"
  "events (snd (newIds p s)) = events s"
  by (simp_all add: newIds_def orUuidv4_def uuidv4_def split: prod.splits)

lemma findOrCreateAccount_untouched:
  "findOrCreateAccount n c t k s = (a, s') \<Longrightarrow> untouched s s'"
  by (auto simp: findOrCreateAccount_def uuidv4_def untouched_def Let_def split: option.splits)

lemma findOrCreateAccount_events:
  "findOrCreateAccount n c t k s = (a, s') \<Longrightarrow> events s' = events s"
  by (auto simp: findOrCreateAccount_def uuidv4_def Let_def split: option.splits)




lemma ensureBalance_state: "snd (ensureBalance r) = snd r"
  by (auto simp: ensureBalance_def split: prod.splits sum.splits)

lemma saveEntries_error:
  "saveEntries g t e es created s = (Inl err, s') \<Longrightarrow>
     err = AccountNotFound \<or> err = CurrencyMismatchError \<or> err = ValidationError"
proof (induction es arbitrary: created s)
  case Nil
  then show ?case by simp
next
  case (Cons d ds)
  then show ?case
    by (auto simp: Let_def updateAccountBalance_def uuidv4_def
             split: sum.splits option.splits if_splits)
qed

lemma executeActions_unfold:
  "executeActions cfg ev p s =
     (case ensureBalance (proposedEntries cfg ev p (snd (newIds p s))) of
        (Inl e, s4) \<Rightarrow> (Inl e, s4)
      | (Inr es, s4) \<Rightarrow>
          saveEntries (fst (fst (newIds p s))) (fst (snd (fst (newIds p s))))
            (snd (snd (fst (newIds p s)))) es [] s4)"
  by (cases "newIds p s") (auto simp: executeActions_def split: prod.splits sum.splits)

subsection \<open>Validation of the PaymentCaptured payload\<close>

lemma paymentCapturedEntries_error:
  assumes "\<not> falsyNum (p_amount p)" "\<not> falsyStr (p_currency p)"
    "\<not> falsyStr (p_merchantId p)" "p_transactionFee p \<noteq> None"
    "paymentCapturedEntries cfg p s = (Inl e, s')"
  shows "e = ExchangeRateUnavailable"
  using assms
  by (auto simp: paymentCapturedEntries_def settlementAmounts_def Let_def
           split: if_splits sum.splits prod.splits dest: getExchangeRate_error)

text \<open>
  C10. The PaymentCaptured case rejects a payload whose amount is 0, or whose currency or
  merchantId is the empty string, with the missing-fields error, although the field is
  present. A transactionFee is missing only when it is undefined: with a transactionFee
  of 0 and the three other fields truthy, the missing-fields error is not raised.
\<close>

theorem paymentCaptured_validation_falsiness:
  "(p_amount p = Some 0 \<or> p_currency p = Some [] \<or> p_merchantId p = Some []
      \<or> p_transactionFee p = None \<longrightarrow>
      fst (executeActions cfg ''PaymentCaptured'' p s) = Inl MissingRequiredFields) \<and>
   (\<not> falsyNum (p_amount p) \<and> \<not> falsyStr (p_currency p) \<and> \<not> falsyStr (p_merchantId p)
      \<and> p_transactionFee p = Some 0 \<longrightarrow>
      fst (executeActions cfg ''PaymentCaptured'' p s) \<noteq> Inl MissingRequiredFields)"
proof (intro conjI impI)
  assume "p_amount p = Some 0 \<or> p_currency p = Some [] \<or> p_merchantId p = Some []
      \<or> p_transactionFee p = None"
  then have "paymentCapturedEntries cfg p (snd (newIds p s)) =
      (Inl MissingRequiredFields, snd (newIds p s))"
    by (auto simp: paymentCapturedEntries_def)
  then show "fst (executeActions cfg ''PaymentCaptured'' p s) = Inl MissingRequiredFields"
    by (simp add: executeActions_unfold proposedEntries_def ensureBalance_def)
next
  assume a: "\<not> falsyNum (p_amount p) \<and> \<not> falsyStr (p_currency p) \<and> \<not> falsyStr (p_merchantId p)
      \<and> p_transactionFee p = Some 0"
  show "fst (executeActions cfg ''PaymentCaptured'' p s) \<noteq> Inl MissingRequiredFields"
  proof
    assume m: "fst (executeActions cfg ''PaymentCaptured'' p s) = Inl MissingRequiredFields"
    obtain r s4 where pe: "paymentCapturedEntries cfg p (snd (newIds p s)) = (r, s4)"
      by (cases "paymentCapturedEntries cfg p (snd (newIds p s))")
    show False
    proof (cases r)
      case (Inl e)
      with pe a have "e = ExchangeRateUnavailable"
        using paymentCapturedEntries_error [of p cfg "snd (newIds p s)" e s4] by simp
      with m pe Inl show False
        by (simp add: executeActions_unfold proposedEntries_def ensureBalance_def)
    next
      case (Inr x)
      obtain es td tc where x: "x = (es, td, tc)" by (cases x)
      show False
      proof (cases "jsGreater (jsAbs (jsMinus td tc)) (Num (1 / 1000))")
        case True
        with m pe Inr x show False
          by (simp add: executeActions_unfold proposedEntries_def ensureBalance_def)
      next
        case False
        with m pe Inr x
        have "fst (saveEntries (fst (fst (newIds p s))) (fst (snd (fst (newIds p s))))
                (snd (snd (fst (newIds p s)))) es [] s4) = Inl MissingRequiredFields"
          by (simp add: executeActions_unfold proposedEntries_def ensureBalance_def)
        then show False
          using saveEntries_error
            [of "fst (fst (newIds p s))" "fst (snd (fst (newIds p s)))"
                "snd (snd (fst (newIds p s)))" es "[]" s4 MissingRequiredFields]
          by (cases "saveEntries (fst (fst (newIds p s))) (fst (snd (fst (newIds p s))))
                (snd (snd (fst (newIds p s)))) es [] s4") auto
      qed
    qed
  qed
qed

theorem paymentCaptured_validation_falsiness_witness:
  "fst (executeActions defaultConfig ''PaymentCaptured''
          (capturePayload 0 ''USD'' ''M1'' 2.9 ''USD'') emptyDb) = Inl MissingRequiredFields \<and>
   fst (executeActions defaultConfig ''PaymentCaptured''
          (capturePayload 100 ''USD'' ''M1'' 0 ''USD'') emptyDb) \<noteq> Inl MissingRequiredFields"
  using paymentCaptured_validation_falsiness
          [of "capturePayload 0 ''USD'' ''M1'' 2.9 ''USD''" defaultConfig emptyDb]
        paymentCaptured_validation_falsiness
          [of "capturePayload 100 ''USD'' ''M1'' 0 ''USD''" defaultConfig emptyDb]
  by (simp add: capturePayload_def emptyPayload_def)

subsection \<open>Evaluation of the model on concrete requests\<close>

lemmas eval_defs =
  run_def postEvents_def executeActions_def newIds_def orUuidv4_def uuidv4_def freshIndex_def
  usedIds_def entryIds_def proposedEntries_def paymentCapturedEntries_def settlementAmounts_def
  paymentRefundedEntries_def paymentPartiallyRefundedEntries_def refundEntries_def
  calculateTotals_def findOrCreateAccount_def newEntryData_def ensureBalance_def
  updateAccountBalance_def balanceChange_def reverseEntries_def findByGroup_def
  reversalAmountCurrency_def newReversalEntry_def flipEntryType_def Let_def
  capturePayload_def refundPayload_def partialRefundPayload_def emptyPayload_def
  defaultConfig_def emptyDb_def

subsection \<open>Refunds without sufficient funds\<close>

lemma merchantPayableBalance_cong:
  "accounts s' = accounts s \<Longrightarrow> merchantPayableBalance m c s' = merchantPayableBalance m c s"
  by (auto simp: merchantPayableBalance_def findOrCreateAccount_def uuidv4_def Let_def
           split: option.splits)

lemma refundEntries_insufficient:
  assumes "merchantPayableBalance m c s < amt"
  shows "refundEntries m c amt s =
           (Inl InsufficientFundsError,
            snd (findOrCreateAccount (''Merchant Payable - '' @ m) c ''Liability'' Credit s))"
  using assms
  by (cases "findOrCreateAccount (''Merchant Payable - '' @ m) c ''Liability'' Credit s")
     (simp add: refundEntries_def merchantPayableBalance_def)

lemma proposedEntries_simps:
  "proposedEntries cfg ''PaymentCaptured'' p s = paymentCapturedEntries cfg p s"
  "proposedEntries cfg ''PaymentRefunded'' p s = paymentRefundedEntries p s"
  "proposedEntries cfg ''PaymentPartiallyRefunded'' p s = paymentPartiallyRefundedEntries p s"
  by (simp_all add: proposedEntries_def)

lemma executeActions_proposal_error:
  assumes "proposedEntries cfg ev p (snd (newIds p s)) = (Inl e, s')"
  shows "executeActions cfg ev p s = (Inl e, s')"
  using assms by (simp add: executeActions_unfold ensureBalance_def)

lemma executeActions_partial_refund_insufficient:
  assumes "p_originalAmount p = Some orig" "p_refundAmount p = Some refund"
    "p_currency p = Some cur" "p_merchantId p = Some m"
    "orig \<noteq> 0" "refund \<noteq> 0" "cur \<noteq> []" "m \<noteq> []" "refund \<le> orig"
    "merchantPayableBalance m cur s < refund"
  shows "executeActions cfg ''PaymentPartiallyRefunded'' p s =
           (Inl InsufficientFundsError,
            snd (findOrCreateAccount (''Merchant Payable - '' @ m) cur ''Liability'' Credit
                   (snd (newIds p s))))"
proof -
  have "merchantPayableBalance m cur (snd (newIds p s)) < refund"
    using assms(10) merchantPayableBalance_cong [of "snd (newIds p s)" s m cur]
    by (simp add: newIds_fields)
  then have "proposedEntries cfg ''PaymentPartiallyRefunded'' p (snd (newIds p s)) =
           (Inl InsufficientFundsError,
            snd (findOrCreateAccount (''Merchant Payable - '' @ m) cur ''Liability'' Credit
                   (snd (newIds p s))))"
    using assms(1-9) refundEntries_insufficient [of m cur "snd (newIds p s)" refund]
    by (simp add: proposedEntries_simps paymentPartiallyRefundedEntries_def)
  then show ?thesis by (rule executeActions_proposal_error)
qed

lemma executeActions_refund_insufficient:
  assumes "p_amount p = Some amt" "p_currency p = Some cur" "p_merchantId p = Some m"
    "amt \<noteq> 0" "cur \<noteq> []" "m \<noteq> []"
    "merchantPayableBalance m cur s < amt"
  shows "executeActions cfg ''PaymentRefunded'' p s =
           (Inl InsufficientFundsError,
            snd (findOrCreateAccount (''Merchant Payable - '' @ m) cur ''Liability'' Credit
                   (snd (newIds p s))))"
proof -
  have "merchantPayableBalance m cur (snd (newIds p s)) < amt"
    using assms(7) merchantPayableBalance_cong [of "snd (newIds p s)" s m cur]
    by (simp add: newIds_fields)
  then have "proposedEntries cfg ''PaymentRefunded'' p (snd (newIds p s)) =
           (Inl InsufficientFundsError,
            snd (findOrCreateAccount (''Merchant Payable - '' @ m) cur ''Liability'' Credit
                   (snd (newIds p s))))"
    using assms(1-6) refundEntries_insufficient [of m cur "snd (newIds p s)" amt]
    by (simp add: proposedEntries_simps paymentRefundedEntries_def)
  then show ?thesis by (rule executeActions_proposal_error)
qed

lemma untouched_newIds_findOrCreateAccount:
  "untouched s (snd (findOrCreateAccount n c t k (snd (newIds p s))))"
proof -
  have "untouched s (snd (newIds p s))"
    by (simp add: untouched_cong newIds_fields)
  moreover have "untouched (snd (newIds p s)) (snd (findOrCreateAccount n c t k (snd (newIds p s))))"
    by (metis findOrCreateAccount_untouched prod.collapse)
  ultimately show ?thesis by (rule untouched_trans)
qed

text \<open>
  C9 (as amended). A PaymentPartiallyRefunded event whose four required fields are all
  truthy (the original amount and the refund amount other than 0, the currency and the
  merchantId other than the empty string) and whose refund amount does not exceed the
  original amount fails with the insufficient-funds error when the balance of the Merchant
  Payable account is less than the refund amount. No ledger entry is written and no
  existing account is changed.
\<close>

theorem partial_refund_insufficient_funds:
  assumes "p_originalAmount p = Some orig" "p_refundAmount p = Some refund"
    "p_currency p = Some cur" "p_merchantId p = Some m"
    "orig \<noteq> 0" "refund \<noteq> 0" "cur \<noteq> []" "m \<noteq> []" "refund \<le> orig"
    "merchantPayableBalance m cur s < refund"
  shows "fst (executeActions cfg ''PaymentPartiallyRefunded'' p s) = Inl InsufficientFundsError \<and>
         ledgerEntries (snd (executeActions cfg ''PaymentPartiallyRefunded'' p s)) = ledgerEntries s \<and>
         untouched s (snd (executeActions cfg ''PaymentPartiallyRefunded'' p s))"
proof -
  note r = executeActions_partial_refund_insufficient [OF assms, of cfg]
  have u: "untouched s (snd (executeActions cfg ''PaymentPartiallyRefunded'' p s))"
    unfolding r by (simp add: untouched_newIds_findOrCreateAccount)
  then have "ledgerEntries (snd (executeActions cfg ''PaymentPartiallyRefunded'' p s)) = ledgerEntries s"
    by (simp add: untouched_def)
  with u r show ?thesis by simp
qed

theorem partial_refund_insufficient_funds_witness:
  "merchantPayableBalance ''M1'' ''USD'' merchantDb = 30 \<and>
   fst (executeActions defaultConfig ''PaymentPartiallyRefunded''
          (partialRefundPayload 100 50 ''USD'' ''M1'') merchantDb) = Inl InsufficientFundsError \<and>
   ledgerEntries (snd (executeActions defaultConfig ''PaymentPartiallyRefunded''
          (partialRefundPayload 100 50 ''USD'' ''M1'') merchantDb)) = []"
proof -
  have b: "merchantPayableBalance ''M1'' ''USD'' merchantDb = 30"
    by (simp add: merchantPayableBalance_def findOrCreateAccount_def merchantDb_def
                  merchantAccount_def emptyDb_def)
  have "fst (executeActions defaultConfig ''PaymentPartiallyRefunded''
          (partialRefundPayload 100 50 ''USD'' ''M1'') merchantDb) = Inl InsufficientFundsError \<and>
        ledgerEntries (snd (executeActions defaultConfig ''PaymentPartiallyRefunded''
          (partialRefundPayload 100 50 ''USD'' ''M1'') merchantDb)) = ledgerEntries merchantDb"
    using partial_refund_insufficient_funds
            [of "partialRefundPayload 100 50 ''USD'' ''M1''" 100 50 "''USD''" "''M1''"
                merchantDb defaultConfig] b
    by (simp add: partialRefundPayload_def emptyPayload_def)
  with b show ?thesis by (simp add: merchantDb_def emptyDb_def)
qed

text \<open>
  C9 as stated fails. In \<open>overdrawnDb\<close> the Merchant Payable account of M1 has the balance
  -100. A partial refund with all four fields, the refund amount 0 and the original
  amount 5 has a refund amount that does not exceed the original amount and a balance
  below the refund amount, and it fails with the missing-fields error, not with the
  insufficient-funds error.
\<close>

theorem partial_refund_insufficient_funds_counterexample:
  "p_originalAmount (partialRefundPayload 5 0 ''USD'' ''M1'') = Some 5 \<and>
   p_refundAmount (partialRefundPayload 5 0 ''USD'' ''M1'') = Some 0 \<and>
   p_currency (partialRefundPayload 5 0 ''USD'' ''M1'') = Some ''USD'' \<and>
   p_merchantId (partialRefundPayload 5 0 ''USD'' ''M1'') = Some ''M1'' \<and>
   merchantPayableBalance ''M1'' ''USD'' overdrawnDb = - 100 \<and>
   fst (executeActions defaultConfig ''PaymentPartiallyRefunded''
          (partialRefundPayload 5 0 ''USD'' ''M1'') overdrawnDb) = Inl MissingRequiredFields \<and>
   fst (postEvents defaultConfig ''PaymentPartiallyRefunded''
          (Some (partialRefundPayload 5 0 ''USD'' ''M1'')) overdrawnDb)
     = (500, Inl MissingRequiredFields)"
  by (simp add: merchantPayableBalance_def overdrawnDb_def overdrawnRequests_def eval_defs)

text \<open>
  C5 (as amended). A PaymentRefunded event whose three required fields are all truthy
  (the amount other than 0, the currency and the merchantId other than the empty string),
  posted while the balance of the Merchant Payable account is less than the amount, is
  answered with status 400 and the insufficient-funds error. No ledger entry is written
  and no existing account is changed. The event record, saved before the event is
  processed, stays in the events collection, and when no Merchant Payable account existed
  for the merchant and currency, one with balance 0 has been created.
\<close>

theorem refund_insufficient_funds:
  assumes "p_amount p = Some amt" "p_currency p = Some cur" "p_merchantId p = Some m"
    "amt \<noteq> 0" "cur \<noteq> []" "m \<noteq> []"
    "merchantPayableBalance m cur s < amt"
  shows "\<exists>s'. postEvents cfg ''PaymentRefunded'' (Some p) s
                = ((400, Inl InsufficientFundsError), s') \<and>
              untouched s s' \<and>
              events s' = events s @ [\<lparr>ev_event_id = fst (uuidv4 s),
                                       ev_event_type = ''PaymentRefunded'', ev_payload = p\<rparr>] \<and>
              (case find (\<lambda>a. account_name a = ''Merchant Payable - '' @ m \<and> currency a = cur)
                      (accounts s) of
                 Some a \<Rightarrow> accounts s' = accounts s
               | None \<Rightarrow> \<exists>a. accounts s' = accounts s @ [a] \<and> balance a = 0 \<and>
                              account_name a = ''Merchant Payable - '' @ m \<and> currency a = cur)"
proof -
  define ev where "ev = \<lparr>ev_event_id = fst (uuidv4 s),
                          ev_event_type = ''PaymentRefunded'', ev_payload = p\<rparr>"
  define s2 where "s2 = (snd (uuidv4 s))\<lparr>events := events (snd (uuidv4 s)) @ [ev]\<rparr>"
  define p' where "p' = p\<lparr>p_event_id := Some (fst (uuidv4 s))\<rparr>"
  define s' where "s' = snd (findOrCreateAccount (''Merchant Payable - '' @ m) cur
                               ''Liability'' Credit (snd (newIds p' s2)))"
  have acc2: "accounts s2 = accounts s" and le2: "ledgerEntries s2 = ledgerEntries s"
    and ev2: "events s2 = events s @ [ev]"
    by (simp_all add: s2_def uuidv4_def)
  have "merchantPayableBalance m cur s2 < amt"
    using assms(7) acc2 merchantPayableBalance_cong [of s2 s m cur] by simp
  then have ex: "executeActions cfg ''PaymentRefunded'' p' s2 = (Inl InsufficientFundsError, s')"
    unfolding s'_def using assms(1-6)
    by (intro executeActions_refund_insufficient) (simp_all add: p'_def)
  have post: "postEvents cfg ''PaymentRefunded'' (Some p) s
                = ((400, Inl InsufficientFundsError), s')"
    using ex by (simp add: postEvents_def s2_def p'_def ev_def Let_def case_prod_unfold)
  have "untouched s2 s'"
    unfolding s'_def by (rule untouched_newIds_findOrCreateAccount)
  moreover have "untouched s s2"
    using acc2 le2 by (rule untouched_cong)
  ultimately have u: "untouched s s'"
    using untouched_trans by blast
  have evs: "events s' = events s @ [ev]"
    unfolding s'_def using ev2
    by (metis findOrCreateAccount_events newIds_fields(3) prod.collapse)
  have accs: "accounts (snd (newIds p' s2)) = accounts s"
    using acc2 by (simp add: newIds_fields)
  have "(case find (\<lambda>a. account_name a = ''Merchant Payable - '' @ m \<and> currency a = cur)
                      (accounts s) of
                 Some a \<Rightarrow> accounts s' = accounts s
               | None \<Rightarrow> \<exists>a. accounts s' = accounts s @ [a] \<and> balance a = 0 \<and>
                              account_name a = ''Merchant Payable - '' @ m \<and> currency a = cur)"
    unfolding s'_def
    by (simp add: findOrCreateAccount_def accs uuidv4_def Let_def split: option.splits)
  with post u evs show ?thesis
    unfolding ev_def by blast
qed

theorem refund_insufficient_funds_witness:
  "merchantPayableBalance ''M1'' ''USD'' merchantDb = 30 \<and>
   (\<exists>s'. postEvents defaultConfig ''PaymentRefunded'' (Some (refundPayload 50 ''USD'' ''M1''))
            merchantDb = ((400, Inl InsufficientFundsError), s') \<and>
         untouched merchantDb s' \<and>
         events s' = [\<lparr>ev_event_id = Uuid 1, ev_event_type = ''PaymentRefunded'',
                        ev_payload = refundPayload 50 ''USD'' ''M1''\<rparr>] \<and>
         accounts s' = accounts merchantDb)"
proof -
  have b: "merchantPayableBalance ''M1'' ''USD'' merchantDb = 30"
    by (simp add: merchantPayableBalance_def findOrCreateAccount_def merchantDb_def
                  merchantAccount_def emptyDb_def)
  show ?thesis
    using refund_insufficient_funds
            [of "refundPayload 50 ''USD'' ''M1''" 50 "''USD''" "''M1''" merchantDb defaultConfig] b
    by (simp add: refundPayload_def emptyPayload_def merchantDb_def emptyDb_def
                  merchantAccount_def uuidv4_def freshIndex_def usedIds_def)
qed

text \<open>
  C5 as stated fails twice. In the example of the specification (balance 30, refund 50)
  the request is rejected, and the events collection, empty before, holds the event
  afterwards. In \<open>overdrawnDb\<close> the Merchant Payable account of M1 has the balance -100; a
  refund with all three fields and the amount 0 finds a balance below the amount, and it
  is answered with status 500 and the missing-fields error.
\<close>

theorem refund_insufficient_funds_counterexample:
  "fst (postEvents defaultConfig ''PaymentRefunded'' (Some (refundPayload 50 ''USD'' ''M1''))
          merchantDb) = (400, Inl InsufficientFundsError) \<and>
   events merchantDb = [] \<and>
   events (snd (postEvents defaultConfig ''PaymentRefunded''
                  (Some (refundPayload 50 ''USD'' ''M1'')) merchantDb))
     = [\<lparr>ev_event_id = Uuid 1, ev_event_type = ''PaymentRefunded'',
          ev_payload = refundPayload 50 ''USD'' ''M1''\<rparr>] \<and>
   p_amount (refundPayload 0 ''USD'' ''M1'') = Some 0 \<and>
   p_currency (refundPayload 0 ''USD'' ''M1'') = Some ''USD'' \<and>
   p_merchantId (refundPayload 0 ''USD'' ''M1'') = Some ''M1'' \<and>
   merchantPayableBalance ''M1'' ''USD'' overdrawnDb = - 100 \<and>
   fst (postEvents defaultConfig ''PaymentRefunded'' (Some (refundPayload 0 ''USD'' ''M1''))
          overdrawnDb) = (500, Inl MissingRequiredFields)"
  by (simp add: merchantPayableBalance_def overdrawnDb_def overdrawnRequests_def eval_defs
                merchantDb_def merchantAccount_def)

subsection \<open>Accounts under balance updates\<close>

lemma applyFirst_map_view:
  "(\<And>x. g (f x) = g x) \<Longrightarrow> map g (applyFirst Q f xs) = map g xs"
  by (induction xs) auto

lemma updateAccountBalance_fields:
  assumes "updateAccountBalance i t m c s = Inr s'"
  shows "accounts s' = applyFirst (\<lambda>a. account_id a = i)
                          (\<lambda>a. a\<lparr>balance := balance a + balanceChange (nature a) t m\<rparr>)
                          (accounts s)"
    and "ledgerEntries s' = ledgerEntries s"
    and "events s' = events s"
    and "uuid_next s' = uuid_next s"
  using assms
  by (auto simp: updateAccountBalance_def split: option.splits if_splits)

lemma find_view_cong:
  assumes "map z xs = map z ys" "\<And>x. P x = P (z x)" "\<And>x. g x = g (z x)"
  shows "map_option g (find P xs) = map_option g (find P ys)"
  using assms(1)
proof (induction xs arbitrary: ys)
  case Nil
  then show ?case by simp
next
  case (Cons x xs)
  then obtain y ys' where ys: "ys = y # ys'" "z x = z y" "map z xs = map z ys'"
    by (cases ys) auto
  have "P x = P y" "g x = g y"
    using assms(2) [of x] assms(2) [of y] assms(3) [of x] assms(3) [of y] ys(2) by simp_all
  with Cons.IH [OF ys(3)] ys(1) show ?case by simp
qed

lemma sameAccountsButBalances_view:
  assumes "sameAccountsButBalances s s'" "\<And>(a::Account) b. g (a\<lparr>balance := b\<rparr>) = g a"
  shows "map_option g (find (\<lambda>a. account_id a = j) (accounts s')) =
         map_option g (find (\<lambda>a. account_id a = j) (accounts s))"
  using assms(1) unfolding sameAccountsButBalances_def
  by (rule find_view_cong) (simp_all add: assms(2))

lemma sameAccountsButBalances_currency:
  "sameAccountsButBalances s s' \<Longrightarrow> accountCurrency s' j = accountCurrency s j"
  unfolding accountCurrency_def by (rule sameAccountsButBalances_view) simp_all

lemma sameAccountsButBalances_refl: "sameAccountsButBalances s s"
  by (simp add: sameAccountsButBalances_def)

lemma sameAccountsButBalances_trans:
  "sameAccountsButBalances s s1 \<Longrightarrow> sameAccountsButBalances s1 s2 \<Longrightarrow>
     sameAccountsButBalances s s2"
  by (simp add: sameAccountsButBalances_def)

lemma updateAccountBalance_sameAccounts:
  "updateAccountBalance i t m c s = Inr s' \<Longrightarrow> sameAccountsButBalances s s'"
  by (simp add: updateAccountBalance_fields(1) sameAccountsButBalances_def applyFirst_map_view)

lemma updateAccountBalance_succeeds:
  "accountCurrency s i = Some c \<Longrightarrow> \<exists>s'. updateAccountBalance i t m c s = Inr s'"
  by (auto simp: accountCurrency_def updateAccountBalance_def split: option.splits)

subsection \<open>The entries of a group\<close>

lemma findByGroup_enumerate:
  "findByGroup g es = filter (\<lambda>p. entryGroupId (snd p) = g) (enumerate 0 es)"
  by (simp add: findByGroup_def enumerate_eq_zip case_prod_unfold)

lemma map_snd_findByGroup:
  "map snd (findByGroup g es) = filter (\<lambda>e. entryGroupId e = g) es"
proof -
  have "filter (\<lambda>e. entryGroupId e = g) (map snd (enumerate 0 es)) =
        map snd (filter ((\<lambda>e. entryGroupId e = g) \<circ> snd) (enumerate 0 es))"
    by (rule filter_map)
  then show ?thesis
    by (simp add: findByGroup_enumerate comp_def)
qed

lemma findByGroup_index:
  "(i, e) \<in> set (findByGroup g es) \<longleftrightarrow> i < length es \<and> es ! i = e \<and> entryGroupId e = g"
  by (auto simp: findByGroup_enumerate in_set_enumerate_eq)

lemma fst_findByGroup:
  "k \<in> fst ` set (findByGroup g es) \<longleftrightarrow> k < length es \<and> entryGroupId (es ! k) = g"
proof
  assume "k \<in> fst ` set (findByGroup g es)"
  then obtain e where "(k, e) \<in> set (findByGroup g es)" by auto
  then show "k < length es \<and> entryGroupId (es ! k) = g"
    by (auto simp: findByGroup_index)
next
  assume "k < length es \<and> entryGroupId (es ! k) = g"
  then have "(k, es ! k) \<in> set (findByGroup g es)"
    by (simp add: findByGroup_index)
  then show "k \<in> fst ` set (findByGroup g es)"
    by (metis fst_conv image_eqI)
qed

lemma list_ex_findByGroup:
  "list_ex (\<lambda>(i, e). isReversed e) (findByGroup g es) \<longleftrightarrow>
     list_ex isReversed (filter (\<lambda>e. entryGroupId e = g) es)"
proof -
  have "list_ex (\<lambda>(i, e). isReversed e) (findByGroup g es) \<longleftrightarrow>
        list_ex isReversed (map snd (findByGroup g es))"
    by (force simp: list_ex_iff)
  then show ?thesis by (simp add: map_snd_findByGroup)
qed

lemma findByGroup_Nil: "findByGroup g es = [] \<longleftrightarrow> filter (\<lambda>e. entryGroupId e = g) es = []"
  using map_snd_findByGroup [of g es] by (metis map_is_Nil_conv)

lemma foldl_mark_length:
  "length (foldl (\<lambda>es i. es[i := (es ! i)\<lparr>isReversed := True\<rparr>]) es is) = length es"
  by (induction "is" arbitrary: es) simp_all

lemma foldl_mark_nth:
  "k < length es \<Longrightarrow>
     foldl (\<lambda>es i. es[i := (es ! i)\<lparr>isReversed := True\<rparr>]) es is ! k =
       (if k \<in> set is then (es ! k)\<lparr>isReversed := True\<rparr> else es ! k)"
proof (induction "is" arbitrary: es)
  case Nil
  then show ?case by simp
next
  case (Cons i "is")
  have "k < length (es[i := (es ! i)\<lparr>isReversed := True\<rparr>])"
    using Cons.prems by simp
  from Cons.IH [OF this] Cons.prems show ?case
    by (cases "k = i") (auto simp: nth_list_update)
qed

lemma foldl_mark_group:
  "foldl (\<lambda>es i. es[i := (es ! i)\<lparr>isReversed := True\<rparr>]) es (map fst (findByGroup g es))
     = markGroupReversed g es"
proof (rule nth_equalityI)
  show "length (foldl (\<lambda>es i. es[i := (es ! i)\<lparr>isReversed := True\<rparr>]) es
                  (map fst (findByGroup g es))) = length (markGroupReversed g es)"
    by (simp add: foldl_mark_length markGroupReversed_def)
next
  fix k
  assume "k < length (foldl (\<lambda>es i. es[i := (es ! i)\<lparr>isReversed := True\<rparr>]) es
                  (map fst (findByGroup g es)))"
  then have k: "k < length es" by (simp add: foldl_mark_length)
  have "k \<in> set (map fst (findByGroup g es)) \<longleftrightarrow> entryGroupId (es ! k) = g"
    using k by (simp add: fst_findByGroup)
  with k show "foldl (\<lambda>es i. es[i := (es ! i)\<lparr>isReversed := True\<rparr>]) es
                  (map fst (findByGroup g es)) ! k = markGroupReversed g es ! k"
    by (simp add: foldl_mark_nth markGroupReversed_def)
qed


subsection \<open>The reversal of one entry\<close>

lemma flipEntryType_opposite: "flipEntryType t = oppositeType t"
  by (cases t) (simp_all add: flipEntryType_def)

lemma schemaAmount_Some: "schemaAmount a c = Some x \<longleftrightarrow> a = Num x \<and> c \<noteq> []"
  by (cases a) auto

lemma jsTimes_Num: "jsTimes (Num a) y = Num x \<longleftrightarrow> (\<exists>q. y = Num q \<and> x = a * q)"
  by (cases y) auto

lemma specReversalAmount_accounts:
  "accounts s' = accounts s \<Longrightarrow> specReversalAmount cfg s' e = specReversalAmount cfg s e"
  by (simp add: specReversalAmount_def)

lemma expectedReversal_accounts:
  "accounts s' = accounts s \<Longrightarrow> expectedReversal cfg s' rg e = expectedReversal cfg s rg e"
  by (simp add: expectedReversal_def specReversalAmount_def)

text \<open>
  A reversal document that passes the schema carries the amount and the currency that
  the specification asks for.
\<close>

lemma reversal_document_spec:
  assumes acct: "find (\<lambda>a. account_id a = entry_account_id e) (accounts s) = Some account"
    and conv: "reversalAmountCurrency cfg account e = Inr (amt, cur)"
    and doc: "newReversalEntry i rg e amt cur = Some r"
  shows "reversalSummary r = expectedReversal cfg s rg e"
proof -
  from doc obtain x where x: "amt = Num x" "cur \<noteq> []"
    and rs: "reversalSummary r =
               (rg, entry_account_id e, oppositeType (entry_type e), Some (x, cur),
                True, False, Some (entry_id e))"
    by (auto simp: newReversalEntry_def reversalSummary_def schemaAmount_Some
                   flipEntryType_opposite)
  have "specReversalAmount cfg s e = Some (x, cur)"
  proof (cases "currency account = entry_currency e")
    case True
    with conv x acct show ?thesis
      by (simp add: reversalAmountCurrency_def specReversalAmount_def)
  next
    case False
    with conv x obtain q where
      q: "getExchangeRate cfg (entry_currency e) (currency account) = Inr (Num q)"
      and xq: "x = amount e * q" and c: "cur = currency account"
      by (auto simp: reversalAmountCurrency_def jsTimes_Num split: sum.splits)
    from getExchangeRate_number [OF q] False obtain ra rb where
      "rates cfg (entry_currency e) = Some ra" "rates cfg (currency account) = Some rb"
      "q = rb / ra"
      by auto
    with False acct xq c show ?thesis
      by (simp add: specReversalAmount_def specConvert_def specRate_def)
  qed
  with rs show ?thesis by (simp add: expectedReversal_def)
qed

text \<open>For a reversible entry the conversion succeeds and the document passes the schema.\<close>

lemma reversible_document:
  assumes "reversible cfg s e"
  shows "\<exists>account amt cur.
           find (\<lambda>a. account_id a = entry_account_id e) (accounts s) = Some account \<and>
           reversalAmountCurrency cfg account e = Inr (amt, cur) \<and>
           newReversalEntry i rg e amt cur \<noteq> None \<and> cur = currency account"
proof -
  from assms obtain account where
    acct: "find (\<lambda>a. account_id a = entry_account_id e) (accounts s) = Some account"
    and ne: "currency account \<noteq> []"
    and cases: "currency account = entry_currency e \<or>
                hasRate cfg (entry_currency e) \<and> hasRate cfg (currency account)"
    by (auto simp: reversible_def split: option.splits)
  show ?thesis
  proof (cases "currency account = entry_currency e")
    case True
    with acct ne show ?thesis
      by (simp add: reversalAmountCurrency_def newReversalEntry_def)
  next
    case False
    with cases obtain ra rb where
      r: "rates cfg (entry_currency e) = Some ra" "rates cfg (currency account) = Some rb"
         "ra \<noteq> 0" "rb \<noteq> 0"
      by (auto simp: hasRate_def split: option.splits)
    have "getExchangeRate cfg (entry_currency e) (currency account) = Inr (Num (rb / ra))"
      using False r by (intro getExchangeRate_rates) auto
    with acct ne False show ?thesis
      by (simp add: reversalAmountCurrency_def newReversalEntry_def)
  qed
qed

subsection \<open>The two loops of the reversal\<close>

lemma buildReversalEntries_result:
  assumes "buildReversalEntries cfg rg os acc s = (Inr docs, s')"
  shows "accounts s' = accounts s \<and> events s' = events s \<and>
         ledgerEntries s' =
           foldl (\<lambda>es i. es[i := (es ! i)\<lparr>isReversed := True\<rparr>]) (ledgerEntries s) (map fst os) \<and>
         (\<exists>new. docs = acc @ new \<and>
            list_all2 (\<lambda>d e. \<forall>r. d = Some r \<longrightarrow> reversalSummary r = expectedReversal cfg s rg e)
              new (map snd os))"
  using assms
proof (induction os arbitrary: acc s)
  case Nil
  then show ?case by simp
next
  case (Cons io os)
  obtain i orig where io: "io = (i, orig)" by (cases io)
  from Cons.prems io obtain account where
    acct: "find (\<lambda>a. account_id a = entry_account_id orig) (accounts s) = Some account"
    by (cases "find (\<lambda>a. account_id a = entry_account_id orig) (accounts s)") auto
  from Cons.prems io acct obtain amt cur where
    conv: "reversalAmountCurrency cfg account orig = Inr (amt, cur)"
    by (cases "reversalAmountCurrency cfg account orig") auto
  define doc where "doc = newReversalEntry (fst (uuidv4 s)) rg orig amt cur"
  define s2 where "s2 = (snd (uuidv4 s))\<lparr>ledgerEntries :=
           (ledgerEntries s)[i := (ledgerEntries s ! i)\<lparr>isReversed := True\<rparr>]\<rparr>"
  have step: "buildReversalEntries cfg rg os (acc @ [doc]) s2 = (Inr docs, s')"
    using Cons.prems io acct conv
    by (simp add: Let_def case_prod_unfold doc_def s2_def uuidv4_fields)
  have acc2: "accounts s2 = accounts s" and ev2: "events s2 = events s"
    and le2: "ledgerEntries s2 = (ledgerEntries s)[i := (ledgerEntries s ! i)\<lparr>isReversed := True\<rparr>]"
    by (simp_all add: s2_def uuidv4_fields)
  from Cons.IH [OF step] obtain new where
    a': "accounts s' = accounts s2" and e': "events s' = events s2"
    and l': "ledgerEntries s' =
           foldl (\<lambda>es i. es[i := (es ! i)\<lparr>isReversed := True\<rparr>]) (ledgerEntries s2) (map fst os)"
    and d': "docs = (acc @ [doc]) @ new"
    and n': "list_all2 (\<lambda>d e. \<forall>r. d = Some r \<longrightarrow> reversalSummary r = expectedReversal cfg s2 rg e)
               new (map snd os)"
    by blast
  have n: "list_all2 (\<lambda>d e. \<forall>r. d = Some r \<longrightarrow> reversalSummary r = expectedReversal cfg s rg e)
             new (map snd os)"
    using n' by (simp add: expectedReversal_accounts [OF acc2])
  have "\<forall>r. doc = Some r \<longrightarrow> reversalSummary r = expectedReversal cfg s rg orig"
    using reversal_document_spec [OF acct conv] by (simp add: doc_def)
  with n have "list_all2 (\<lambda>d e. \<forall>r. d = Some r \<longrightarrow> reversalSummary r = expectedReversal cfg s rg e)
             (doc # new) (map snd (io # os))"
    by (simp add: io)
  moreover have "docs = acc @ (doc # new)"
    using d' by simp
  ultimately have "\<exists>new. docs = acc @ new \<and>
            list_all2 (\<lambda>d e. \<forall>r. d = Some r \<longrightarrow> reversalSummary r = expectedReversal cfg s rg e)
              new (map snd (io # os))"
    by blast
  with a' e' l' acc2 ev2 le2 show ?case
    by (simp add: io)
qed

lemma buildReversalEntries_succeeds:
  assumes "\<forall>io\<in>set os. reversible cfg s (snd io)"
  shows "\<exists>res s'. buildReversalEntries cfg rg os acc s = (Inr (acc @ map Some res), s')"
  using assms
proof (induction os arbitrary: acc s)
  case Nil
  have "buildReversalEntries cfg rg [] acc s = (Inr (acc @ map Some []), s)" by simp
  then show ?case by blast
next
  case (Cons io os)
  obtain i orig where io: "io = (i, orig)" by (cases io)
  have "reversible cfg s orig" using Cons.prems io by simp
  from reversible_document [OF this, of "fst (uuidv4 s)" rg] obtain account amt cur r where
    acct: "find (\<lambda>a. account_id a = entry_account_id orig) (accounts s) = Some account"
    and conv: "reversalAmountCurrency cfg account orig = Inr (amt, cur)"
    and doc: "newReversalEntry (fst (uuidv4 s)) rg orig amt cur = Some r"
    by auto
  define s2 where "s2 = (snd (uuidv4 s))\<lparr>ledgerEntries :=
           (ledgerEntries s)[i := (ledgerEntries s ! i)\<lparr>isReversed := True\<rparr>]\<rparr>"
  have acc2: "accounts s2 = accounts s" by (simp add: s2_def uuidv4_fields)
  have "\<forall>io\<in>set os. reversible cfg s2 (snd io)"
    using Cons.prems acc2 by (simp add: reversible_def)
  from Cons.IH [OF this, of "acc @ [Some r]"] obtain res s' where
    "buildReversalEntries cfg rg os (acc @ [Some r]) s2 = (Inr ((acc @ [Some r]) @ map Some res), s')"
    by blast
  then have "buildReversalEntries cfg rg (io # os) acc s = (Inr (acc @ map Some (r # res)), s')"
    using io acct conv doc
    by (simp add: Let_def case_prod_unfold s2_def uuidv4_fields)
  then show ?case by blast
qed

lemma saveReversalEntries_result:
  assumes "saveReversalEntries docs s = (Inr saved, s')"
  shows "docs = map Some saved \<and> ledgerEntries s' = ledgerEntries s @ saved"
  using assms
proof (induction docs arbitrary: s saved)
  case Nil
  then show ?case by auto
next
  case (Cons d ds)
  from Cons.prems obtain r where d: "d = Some r" by (cases d) auto
  define s1 where "s1 = s\<lparr>ledgerEntries := ledgerEntries s @ [r]\<rparr>"
  from Cons.prems d obtain s2 where
    u: "updateAccountBalance (entry_account_id r) (entry_type r) (amount r)
          (entry_currency r) s1 = Inr s2"
    by (cases "updateAccountBalance (entry_account_id r) (entry_type r) (amount r)
                 (entry_currency r) s1") (auto simp: Let_def s1_def)
  from Cons.prems d u obtain rest where
    sv: "saveReversalEntries ds s2 = (Inr rest, s')" and saved: "saved = r # rest"
    by (cases "saveReversalEntries ds s2")
       (auto simp: Let_def s1_def [symmetric] split: sum.splits)
  have "ledgerEntries s2 = ledgerEntries s @ [r]"
    using updateAccountBalance_fields(2) [OF u] by (simp add: s1_def)
  with Cons.IH [OF sv] d saved show ?case by simp
qed

lemma saveReversalEntries_succeeds:
  assumes "list_all (\<lambda>x. accountCurrency s (entry_account_id x) = Some (entry_currency x)) res"
  shows "\<exists>s'. saveReversalEntries (map Some res) s = (Inr res, s')"
  using assms
proof (induction res arbitrary: s)
  case Nil
  then show ?case by simp
next
  case (Cons x xs)
  define s1 where "s1 = s\<lparr>ledgerEntries := ledgerEntries s @ [x]\<rparr>"
  have "accountCurrency s1 (entry_account_id x) = Some (entry_currency x)"
    using Cons.prems by (simp add: accountCurrency_def s1_def)
  then obtain s2 where
    u: "updateAccountBalance (entry_account_id x) (entry_type x) (amount x)
          (entry_currency x) s1 = Inr s2"
    using updateAccountBalance_succeeds by blast
  have same2: "sameAccountsButBalances s s2"
    using updateAccountBalance_sameAccounts [OF u]
    by (simp add: sameAccountsButBalances_def s1_def)
  have "list_all (\<lambda>x. accountCurrency s2 (entry_account_id x) = Some (entry_currency x)) xs"
    using Cons.prems sameAccountsButBalances_currency [OF same2] by simp
  from Cons.IH [OF this] obtain s' where
    r: "saveReversalEntries (map Some xs) s2 = (Inr xs, s')"
    by blast
  have "saveReversalEntries (map Some (x # xs)) s = (Inr (x # xs), s')"
    using u r by (simp add: Let_def s1_def)
  then show ?case by blast
qed

subsection \<open>The reversal of a group\<close>



lemma list_all2_Some_summary:
  assumes "list_all2 (\<lambda>d e. \<forall>r. d = Some r \<longrightarrow> f r = h e) (map Some rs) es"
  shows "map f rs = map h es"
  using assms
proof (induction rs arbitrary: es)
  case Nil
  then show ?case by simp
next
  case (Cons r rs)
  then obtain e es' where "es = e # es'" "f r = h e"
    "list_all2 (\<lambda>d e. \<forall>r. d = Some r \<longrightarrow> f r = h e) (map Some rs) es'"
    by (cases es) auto
  with Cons.IH show ?case by simp
qed

lemma reverseEntries_result:
  assumes "reverseEntries cfg g s = ((201, Inr (rg, revs)), s')"
  shows "rg = fst (uuidv4 s)"
    and "map reversalSummary revs = map (expectedReversal cfg s rg) (groupEntries g s)"
    and "ledgerEntries s' = markGroupReversed g (ledgerEntries s) @ revs"
proof -
  define os where "os = findByGroup g (ledgerEntries s)"
  define s1 where "s1 = snd (uuidv4 s)"
  have run: "\<not> (os = [] \<or> list_ex (\<lambda>(i, e). isReversed e) os)"
    using assms by (auto simp: reverseEntries_def os_def Let_def split: if_splits)
  obtain b s2 where b: "buildReversalEntries cfg (fst (uuidv4 s)) os [] s1 = (b, s2)"
    by (cases "buildReversalEntries cfg (fst (uuidv4 s)) os [] s1")
  from assms run b obtain docs where bd: "b = Inr docs"
    by (cases b)
       (auto simp: reverseEntries_def os_def [symmetric] Let_def case_prod_unfold
                   s1_def [symmetric])
  from assms run b bd have sv: "saveReversalEntries docs s2 = (Inr revs, s')"
    and rg: "rg = fst (uuidv4 s)"
    by (cases "saveReversalEntries docs s2";
        auto simp: reverseEntries_def os_def [symmetric] Let_def case_prod_unfold
                   s1_def [symmetric] split: sum.splits)+
  show "rg = fst (uuidv4 s)" by (rule rg)
  have acc1: "accounts s1 = accounts s" and le1: "ledgerEntries s1 = ledgerEntries s"
    by (simp_all add: s1_def uuidv4_fields)
  from buildReversalEntries_result [OF b [unfolded bd]] obtain new where
    le2: "ledgerEntries s2 =
            foldl (\<lambda>es i. es[i := (es ! i)\<lparr>isReversed := True\<rparr>]) (ledgerEntries s1) (map fst os)"
    and new: "docs = new"
    and all: "list_all2 (\<lambda>d e. \<forall>r. d = Some r \<longrightarrow>
                 reversalSummary r = expectedReversal cfg s1 (fst (uuidv4 s)) e) new (map snd os)"
    by auto
  from saveReversalEntries_result [OF sv] have docs: "docs = map Some revs"
    and le': "ledgerEntries s' = ledgerEntries s2 @ revs"
    by simp_all
  have "map reversalSummary revs = map (expectedReversal cfg s1 (fst (uuidv4 s))) (map snd os)"
    using all new docs by (intro list_all2_Some_summary) simp
  then show "map reversalSummary revs = map (expectedReversal cfg s rg) (groupEntries g s)"
    using expectedReversal_accounts [OF acc1, of cfg]
    by (simp add: rg os_def map_snd_findByGroup groupEntries_def)
  show "ledgerEntries s' = markGroupReversed g (ledgerEntries s) @ revs"
    using le' le2 le1 by (simp add: os_def foldl_mark_group)
qed

lemma expectedReversal_currency:
  assumes "reversalSummary r = expectedReversal cfg s rg e"
  shows "accountCurrency s (entry_account_id r) = Some (entry_currency r)"
proof -
  from assms have i: "entry_account_id r = entry_account_id e"
    and a: "specReversalAmount cfg s e = Some (amount r, entry_currency r)"
    by (simp_all add: reversalSummary_def expectedReversal_def)
  from a show ?thesis
    unfolding i
    by (auto simp: specReversalAmount_def accountCurrency_def split: option.splits if_splits)
qed

lemma reverseEntries_succeeds:
  assumes ne: "groupEntries g s \<noteq> []"
    and nr: "\<not> list_ex isReversed (groupEntries g s)"
    and conv: "list_all (reversible cfg s) (groupEntries g s)"
  shows "\<exists>revs s'. reverseEntries cfg g s = ((201, Inr (fst (uuidv4 s), revs)), s')"
proof -
  define os where "os = findByGroup g (ledgerEntries s)"
  define s1 where "s1 = snd (uuidv4 s)"
  define rg where "rg = fst (uuidv4 s)"
  have grp: "map snd os = groupEntries g s"
    by (simp add: os_def map_snd_findByGroup groupEntries_def)
  have run: "os \<noteq> []" "\<not> list_ex (\<lambda>(i, e). isReversed e) os"
    using ne nr by (simp_all add: os_def findByGroup_Nil list_ex_findByGroup groupEntries_def)
  have acc1: "accounts s1 = accounts s"
    by (simp add: s1_def uuidv4_fields)
  have "\<forall>io\<in>set os. reversible cfg s1 (snd io)"
  proof
    fix io assume "io \<in> set os"
    then have "snd io \<in> set (groupEntries g s)"
      unfolding grp [symmetric] by simp
    with conv show "reversible cfg s1 (snd io)"
      by (simp add: list_all_iff reversible_def acc1)
  qed
  from buildReversalEntries_succeeds [OF this, of rg "[]"] obtain revs s2 where
    b: "buildReversalEntries cfg rg os [] s1 = (Inr (map Some revs), s2)"
    by auto
  from buildReversalEntries_result [OF b]
  have acc2: "accounts s2 = accounts s1"
    and all: "list_all2 (\<lambda>d e. \<forall>r. d = Some r \<longrightarrow> reversalSummary r = expectedReversal cfg s1 rg e)
                (map Some revs) (map snd os)"
    by simp_all
  have sm: "map reversalSummary revs = map (expectedReversal cfg s1 rg) (map snd os)"
    using all by (rule list_all2_Some_summary)
  have "list_all (\<lambda>x. accountCurrency s2 (entry_account_id x) = Some (entry_currency x)) revs"
    unfolding list_all_iff
  proof
    fix r assume "r \<in> set revs"
    then have "reversalSummary r \<in> set (map reversalSummary revs)" by simp
    then obtain e where "reversalSummary r = expectedReversal cfg s1 rg e"
      unfolding sm by auto
    then have "accountCurrency s1 (entry_account_id r) = Some (entry_currency r)"
      by (rule expectedReversal_currency)
    then show "accountCurrency s2 (entry_account_id r) = Some (entry_currency r)"
      by (simp add: accountCurrency_def acc2)
  qed
  from saveReversalEntries_succeeds [OF this] obtain s3 where
    sv: "saveReversalEntries (map Some revs) s2 = (Inr revs, s3)"
    by blast
  have "reverseEntries cfg g s = ((201, Inr (fst (uuidv4 s), revs)), s3)"
    using run b sv
    by (simp add: reverseEntries_def os_def [symmetric] Let_def case_prod_unfold
                  s1_def [symmetric] rg_def [symmetric])
  then show ?thesis by blast
qed


lemma postedDb_group:
  "groupEntries (Uuid 0) postedDb = postedEntries"
  "groupEntries (Uuid 0) editedDb = postedEntries"
  by (simp_all add: groupEntries_def postedDb_def editedDb_def postedEntries_def)

lemma postedDb_reversible:
  "list_all (reversible defaultConfig postedDb) postedEntries"
  "list_all (reversible defaultConfig editedDb) postedEntries"
  by (simp_all add: reversible_def hasRate_def postedDb_def editedDb_def postedEntries_def
                    postedAccounts_def defaultConfig_def)




subsection \<open>Totals of a reversal\<close>

lemma oppositeType_eq: "oppositeType a = oppositeType b \<longleftrightarrow> a = b"
  by (cases a; cases b) simp_all

lemma entriesTotal_pairs:
  "entriesTotal t es =
     sum_list (map snd (filter (\<lambda>p. fst p = t) (map (\<lambda>e. (entry_type e, amount e)) es)))"
  by (simp add: entriesTotal_def filter_map comp_def)

lemma specReversalTotal_pairs:
  "specReversalTotal cfg s t es =
     sum_list (map snd (filter (\<lambda>p. fst p = oppositeType t)
       (map (\<lambda>e. (oppositeType (entry_type e),
                   case specReversalAmount cfg s e of Some (x, c) \<Rightarrow> x | None \<Rightarrow> 0)) es)))"
  by (simp add: specReversalTotal_def filter_map comp_def oppositeType_eq)

lemma reversal_pairs:
  assumes "map reversalSummary revs = map (expectedReversal cfg s rg) es"
  shows "map (\<lambda>r. (entry_type r, amount r)) revs =
         map (\<lambda>e. (oppositeType (entry_type e),
                    case specReversalAmount cfg s e of Some (x, c) \<Rightarrow> x | None \<Rightarrow> 0)) es"
proof -
  define h :: "ident \<times> ident \<times> EntryType \<times> (rat \<times> string) option \<times> bool \<times> bool \<times> ident option
                 \<Rightarrow> EntryType \<times> rat"
    where "h = (\<lambda>(g, i, t, ca, x). (t, case ca of Some (a, c) \<Rightarrow> a | None \<Rightarrow> 0))"
  have "map h (map reversalSummary revs) = map h (map (expectedReversal cfg s rg) es)"
    using assms by simp
  then show ?thesis
    by (simp add: h_def reversalSummary_def expectedReversal_def comp_def)
qed

lemma specReversalAmount_same_currency:
  "accountCurrency s (entry_account_id e) = Some (entry_currency e) \<Longrightarrow>
     specReversalAmount cfg s e = Some (amount e, entry_currency e)"
  by (auto simp: specReversalAmount_def accountCurrency_def split: option.splits)

lemma specReversalTotal_same_currency:
  assumes "list_all (\<lambda>e. accountCurrency s (entry_account_id e) = Some (entry_currency e)) es"
  shows "specReversalTotal cfg s t es = entriesTotal t es"
proof -
  have "map (\<lambda>e. case specReversalAmount cfg s e of Some (x, c) \<Rightarrow> x | None \<Rightarrow> 0)
          (filter (\<lambda>e. entry_type e = t) es) =
        map amount (filter (\<lambda>e. entry_type e = t) es)"
    using assms
    by (intro map_cong) (auto simp: list_all_iff specReversalAmount_same_currency)
  then show ?thesis
    unfolding specReversalTotal_def entriesTotal_def by (rule arg_cong)
qed

text \<open>
  C3 (as amended). When a reversal succeeds, the Debit total of the inverse group is the
  sum, over the original Credit entries, of the amount of the entry, multiplied by
  \<open>rates[account currency] / rates[entry currency]\<close> where the account of the entry no
  longer has the currency of the entry; its Credit total is the same sum over the original
  Debit entries. Hence, when every account of the group still has the currency stored on
  its entry, the two totals of the original group are swapped, and the inverse group
  balances within 0.001 whenever the original group does.
\<close>

theorem reversal_totals:
  "reverseEntries cfg g s = ((201, Inr (rg, revs)), s') \<longrightarrow>
     entriesTotal Debit revs = specReversalTotal cfg s Credit (groupEntries g s) \<and>
     entriesTotal Credit revs = specReversalTotal cfg s Debit (groupEntries g s) \<and>
     (list_all (\<lambda>e. accountCurrency s (entry_account_id e) = Some (entry_currency e))
        (groupEntries g s) \<longrightarrow>
        entriesTotal Debit revs = entriesTotal Credit (groupEntries g s) \<and>
        entriesTotal Credit revs = entriesTotal Debit (groupEntries g s) \<and>
        (\<bar>entriesTotal Debit (groupEntries g s) - entriesTotal Credit (groupEntries g s)\<bar>
           \<le> 1 / 1000 \<longrightarrow>
         \<bar>entriesTotal Debit revs - entriesTotal Credit revs\<bar> \<le> 1 / 1000))"
proof
  assume r: "reverseEntries cfg g s = ((201, Inr (rg, revs)), s')"
  note p = reversal_pairs [OF reverseEntries_result(2) [OF r]]
  have d: "entriesTotal Debit revs = specReversalTotal cfg s Credit (groupEntries g s)"
    unfolding entriesTotal_pairs specReversalTotal_pairs p by simp
  have c: "entriesTotal Credit revs = specReversalTotal cfg s Debit (groupEntries g s)"
    unfolding entriesTotal_pairs specReversalTotal_pairs p by simp
  have "list_all (\<lambda>e. accountCurrency s (entry_account_id e) = Some (entry_currency e))
          (groupEntries g s) \<longrightarrow>
        entriesTotal Debit revs = entriesTotal Credit (groupEntries g s) \<and>
        entriesTotal Credit revs = entriesTotal Debit (groupEntries g s) \<and>
        (\<bar>entriesTotal Debit (groupEntries g s) - entriesTotal Credit (groupEntries g s)\<bar>
           \<le> 1 / 1000 \<longrightarrow>
         \<bar>entriesTotal Debit revs - entriesTotal Credit revs\<bar> \<le> 1 / 1000)"
  proof
    assume "list_all (\<lambda>e. accountCurrency s (entry_account_id e) = Some (entry_currency e))
              (groupEntries g s)"
    then have "\<And>t. specReversalTotal cfg s t (groupEntries g s) = entriesTotal t (groupEntries g s)"
      by (rule specReversalTotal_same_currency)
    with d c show "entriesTotal Debit revs = entriesTotal Credit (groupEntries g s) \<and>
        entriesTotal Credit revs = entriesTotal Debit (groupEntries g s) \<and>
        (\<bar>entriesTotal Debit (groupEntries g s) - entriesTotal Credit (groupEntries g s)\<bar>
           \<le> 1 / 1000 \<longrightarrow>
         \<bar>entriesTotal Debit revs - entriesTotal Credit revs\<bar> \<le> 1 / 1000)"
      by (simp add: abs_minus_commute)
  qed
  with d c show "entriesTotal Debit revs = specReversalTotal cfg s Credit (groupEntries g s) \<and>
     entriesTotal Credit revs = specReversalTotal cfg s Debit (groupEntries g s) \<and>
     (list_all (\<lambda>e. accountCurrency s (entry_account_id e) = Some (entry_currency e))
        (groupEntries g s) \<longrightarrow>
        entriesTotal Debit revs = entriesTotal Credit (groupEntries g s) \<and>
        entriesTotal Credit revs = entriesTotal Debit (groupEntries g s) \<and>
        (\<bar>entriesTotal Debit (groupEntries g s) - entriesTotal Credit (groupEntries g s)\<bar>
           \<le> 1 / 1000 \<longrightarrow>
         \<bar>entriesTotal Debit revs - entriesTotal Credit revs\<bar> \<le> 1 / 1000))"
    by blast
qed

lemma postedDb_reversal:
  "\<exists>rg revs s'. reverseEntries defaultConfig (Uuid 0) postedDb = ((201, Inr (rg, revs)), s')"
  "\<exists>rg revs s'. reverseEntries defaultConfig (Uuid 0) editedDb = ((201, Inr (rg, revs)), s')"
proof -
  have ne: "postedEntries \<noteq> []" "\<not> list_ex isReversed postedEntries"
    by (simp_all add: postedEntries_def)
  show "\<exists>rg revs s'. reverseEntries defaultConfig (Uuid 0) postedDb = ((201, Inr (rg, revs)), s')"
    using reverseEntries_succeeds [of "Uuid 0" postedDb defaultConfig] ne postedDb_reversible(1)
    by (simp add: postedDb_group) blast
  show "\<exists>rg revs s'. reverseEntries defaultConfig (Uuid 0) editedDb = ((201, Inr (rg, revs)), s')"
    using reverseEntries_succeeds [of "Uuid 0" editedDb defaultConfig] ne postedDb_reversible(2)
    by (simp add: postedDb_group) blast
qed

lemma postedDb_totals:
  "entriesTotal Debit postedEntries = 100"
  "entriesTotal Credit postedEntries = 100"
  "specReversalTotal defaultConfig editedDb Debit postedEntries = 92"
  "specReversalTotal defaultConfig editedDb Credit postedEntries = 100"
  by (simp_all add: entriesTotal_def specReversalTotal_def specReversalAmount_def
                    specConvert_def specRate_def editedDb_def postedDb_def postedEntries_def
                    postedAccounts_def defaultConfig_def)

theorem reversal_totals_witness:
  "entriesTotal Debit (groupEntries (Uuid 0) postedDb) = 100 \<and>
   entriesTotal Credit (groupEntries (Uuid 0) postedDb) = 100 \<and>
   (\<exists>rg revs s'. reverseEntries defaultConfig (Uuid 0) postedDb = ((201, Inr (rg, revs)), s') \<and>
      entriesTotal Debit revs = 100 \<and> entriesTotal Credit revs = 100 \<and>
      \<bar>entriesTotal Debit revs - entriesTotal Credit revs\<bar> \<le> 1 / 1000) \<and>
   (\<exists>rg revs s'. reverseEntries defaultConfig (Uuid 0) editedDb = ((201, Inr (rg, revs)), s') \<and>
      entriesTotal Debit revs = 100 \<and> entriesTotal Credit revs = 100 * (0.92 / 1))"
proof -
  obtain rg revs s' where
    r: "reverseEntries defaultConfig (Uuid 0) postedDb = ((201, Inr (rg, revs)), s')"
    using postedDb_reversal(1) by blast
  obtain rg2 revs2 s2 where
    r2: "reverseEntries defaultConfig (Uuid 0) editedDb = ((201, Inr (rg2, revs2)), s2)"
    using postedDb_reversal(2) by blast
  have same: "list_all (\<lambda>e. accountCurrency postedDb (entry_account_id e) = Some (entry_currency e))
                (groupEntries (Uuid 0) postedDb)"
    by (simp add: postedDb_group)
       (simp add: postedEntries_def postedDb_def postedAccounts_def accountCurrency_def)
  have "entriesTotal Debit revs = 100 \<and> entriesTotal Credit revs = 100 \<and>
        \<bar>entriesTotal Debit revs - entriesTotal Credit revs\<bar> \<le> 1 / 1000"
    using reversal_totals [of defaultConfig "Uuid 0" postedDb rg revs s'] r same
    by (simp add: postedDb_group postedDb_totals)
  moreover have "entriesTotal Debit revs2 = 100 \<and> entriesTotal Credit revs2 = 100 * (0.92 / 1)"
    using reversal_totals [of defaultConfig "Uuid 0" editedDb rg2 revs2 s2] r2
    by (simp add: postedDb_group postedDb_totals)
  ultimately show ?thesis
    using r r2 by (simp add: postedDb_group postedDb_totals)
qed

text \<open>
  C3 as stated fails: the group of \<open>editedDb\<close> balances, 100 against 100, and its cash
  account has been changed from USD to EUR. The reversal succeeds and converts the amount
  of the cash entry only: the inverse group has debits of 100 and credits of 92.
\<close>

theorem reversal_totals_counterexample:
  "entriesTotal Debit (groupEntries (Uuid 0) editedDb) = 100 \<and>
   entriesTotal Credit (groupEntries (Uuid 0) editedDb) = 100 \<and>
   (\<exists>revs s'. reverseEntries defaultConfig (Uuid 0) editedDb = ((201, Inr (Uuid 5, revs)), s') \<and>
      entriesTotal Debit revs = 100 \<and> entriesTotal Credit revs = 92)"
  by (simp add: groupEntries_def entriesTotal_def editedDb_def postedDb_def postedEntries_def
                postedAccounts_def reverseEntries_def findByGroup_def uuidv4_def freshIndex_def
                usedIds_def entryIds_def reversalAmountCurrency_def newReversalEntry_def
                getExchangeRate_def getProperty_def defaultConfig_def
                flipEntryType_def updateAccountBalance_def balanceChange_def Let_def)

subsection \<open>The balance check\<close>




















end
